theory Spec2Isabelle
  imports Complex_Main "HOL-Library.AList" "HOL-Library.Sublist"
    "HOL-Library.List_Lexorder" "HOL-Library.Char_ord"
begin

section \<open>Numbers\<close>

text \<open>
  The program computes with JavaScript numbers. Finite values are modelled as exact
  rationals (no binary rounding error); the three non-finite values are separate
  constructors, so that the literal \<open>Infinity\<close> of the profit factor and a division by
  zero stay visible.
\<close>

datatype jsnum = Fin rat | PosInf | NegInf | NaN

text \<open>\<open>a / b\<close> on two finite numbers.\<close>

definition js_div :: "rat \<Rightarrow> rat \<Rightarrow> jsnum" where
  "js_div a b =
     (if b \<noteq> 0 then Fin (a / b)
      else if a > 0 then PosInf
      else if a < 0 then NegInf
      else NaN)"

text \<open>\<open>x * c\<close> for a positive finite constant \<open>c\<close> (here always 100).\<close>

fun js_scale :: "jsnum \<Rightarrow> rat \<Rightarrow> jsnum" where
  "js_scale (Fin x) c = Fin (x * c)"
| "js_scale PosInf c = PosInf"
| "js_scale NegInf c = NegInf"
| "js_scale NaN c = NaN"

text \<open>\<open>Math.round\<close>: the nearest integer, a tie going towards plus infinity.\<close>

definition Math_round :: "rat \<Rightarrow> int" where
  "Math_round x = \<lfloor>x + 1 / 2\<rfloor>"

text \<open>\<open>Math.round(x * 100) / 100\<close>.\<close>

definition round2 :: "rat \<Rightarrow> rat" where
  "round2 x = of_int (Math_round (x * 100)) / 100"

text \<open>\<open>Math.round((x) * 10000) / 100\<close>, the form used for the per-group win rates.\<close>

definition round_pct :: "rat \<Rightarrow> rat" where
  "round_pct x = of_int (Math_round (x * 10000)) / 100"

fun js_round2 :: "jsnum \<Rightarrow> jsnum" where
  "js_round2 (Fin x) = Fin (round2 x)"
| "js_round2 PosInf = PosInf"
| "js_round2 NegInf = NegInf"
| "js_round2 NaN = NaN"

section \<open>Trades\<close>

text \<open>
  A row of the \<open>trades\<close> table, one field per column the statements of the program read
  or write (\<open>trade_id\<close>, \<open>trade_size\<close> and \<open>trade_notes\<close> are the columns \<open>id\<close>,
  \<open>size\<close> and \<open>notes\<close>). A column that may hold NULL is an option. The statements the
  program issues name the column \<open>is_paper\<close>, so the table is taken to have it.
\<close>

record trade =
  trade_id :: nat
  ticker :: string
  direction :: string
  instrument :: string
  entry_price :: rat
  entry_time :: string
  exit_price :: "rat option"
  exit_time :: "string option"
  trade_size :: int
  cost_basis :: rat
  proceeds :: "rat option"
  pnl :: "rat option"
  pnl_pct :: "jsnum option"
  setup_type :: "string option"
  narrative_id :: "int option"
  watchlist_id :: "int option"
  planned_risk :: "rat option"
  planned_target :: "rat option"
  actual_rr :: "rat option"
  trade_notes :: "string option"
  lessons :: "string option"
  status :: string
  is_paper :: "int option"

text \<open>
  A value read in a numeric position (\<open>+\<close>, \<open><\<close>, \<open>>\<close>): \<open>null\<close> converts to 0. Strict
  equality \<open>=== 0\<close> does not convert, so it is written on the option itself.
\<close>

definition num :: "rat option \<Rightarrow> rat" where
  "num v = (case v of None \<Rightarrow> 0 | Some x \<Rightarrow> x)"

definition isWin :: "trade \<Rightarrow> bool" where
  "isWin t = (num (pnl t) > 0)"

definition isLoss :: "trade \<Rightarrow> bool" where
  "isLoss t = (num (pnl t) < 0)"

definition isScratch :: "trade \<Rightarrow> bool" where
  "isScratch t = (pnl t = Some 0)"

section \<open>Statistics: the summary\<close>

text \<open>The constants \<open>getStats\<close> computes before it builds its result.\<close>

definition winners_of :: "trade list \<Rightarrow> trade list" where
  "winners_of trades = filter isWin trades"

definition losers_of :: "trade list \<Rightarrow> trade list" where
  "losers_of trades = filter isLoss trades"

definition scratches_of :: "trade list \<Rightarrow> trade list" where
  "scratches_of trades = filter isScratch trades"

definition sum_pnl :: "trade list \<Rightarrow> rat" where
  "sum_pnl ts = foldl (\<lambda>s t. s + num (pnl t)) 0 ts"

definition raw_totalPnL :: "trade list \<Rightarrow> rat" where
  "raw_totalPnL trades = sum_pnl trades"

definition raw_winRate :: "trade list \<Rightarrow> rat" where
  "raw_winRate trades =
     (of_nat (length (winners_of trades)) / of_nat (length trades)) * 100"

definition totalWinnings :: "trade list \<Rightarrow> rat" where
  "totalWinnings trades = sum_pnl (winners_of trades)"

definition totalLosses :: "trade list \<Rightarrow> rat" where
  "totalLosses trades = \<bar>sum_pnl (losers_of trades)\<bar>"

definition raw_avgWinner :: "trade list \<Rightarrow> rat" where
  "raw_avgWinner trades =
     (if length (winners_of trades) > 0
      then totalWinnings trades / of_nat (length (winners_of trades)) else 0)"

definition raw_avgLoser :: "trade list \<Rightarrow> rat" where
  "raw_avgLoser trades =
     (if length (losers_of trades) > 0
      then totalLosses trades / of_nat (length (losers_of trades)) else 0)"

definition raw_profitFactor :: "trade list \<Rightarrow> jsnum" where
  "raw_profitFactor trades =
     (if totalLosses trades > 0 then Fin (totalWinnings trades / totalLosses trades)
      else if totalWinnings trades > 0 then PosInf
      else Fin 0)"

text \<open>The two \<open>reduce\<close> calls that pick the best and the worst trade.\<close>

definition pick_best :: "trade option \<Rightarrow> trade \<Rightarrow> trade option" where
  "pick_best best current =
     (case best of
        None \<Rightarrow> Some current
      | Some b \<Rightarrow> if num (pnl current) > num (pnl b) then Some current else Some b)"

definition pick_worst :: "trade option \<Rightarrow> trade \<Rightarrow> trade option" where
  "pick_worst worst current =
     (case worst of
        None \<Rightarrow> Some current
      | Some w \<Rightarrow> if num (pnl current) < num (pnl w) then Some current else Some w)"

definition bestTrade_of :: "trade list \<Rightarrow> trade option" where
  "bestTrade_of trades = foldl pick_best None trades"

definition worstTrade_of :: "trade list \<Rightarrow> trade option" where
  "worstTrade_of trades = foldl pick_worst None trades"

record trade_ref =
  ref_id :: nat
  ref_ticker :: string
  ref_pnl :: "rat option"
  ref_setup :: "string option"

definition mk_ref :: "trade \<Rightarrow> trade_ref" where
  "mk_ref t = \<lparr>ref_id = trade_id t, ref_ticker = ticker t, ref_pnl = pnl t,
              ref_setup = setup_type t\<rparr>"

section \<open>Statistics: analysis by setup\<close>

record setup_stats =
  s_totalTrades :: nat
  s_winners :: nat
  s_losers :: nat
  s_totalPnL :: rat
  s_winRate :: rat
  s_avgPnL :: rat

text \<open>\<open>trade.setup_type || 'other'\<close>: \<open>null\<close> and the empty string are falsy.\<close>

definition setup_key :: "trade \<Rightarrow> string" where
  "setup_key t =
     (case setup_type t of None \<Rightarrow> ''other'' | Some s \<Rightarrow> if s = [] then ''other'' else s)"

definition setup_zero :: setup_stats where
  "setup_zero = \<lparr>s_totalTrades = 0, s_winners = 0, s_losers = 0, s_totalPnL = 0,
                 s_winRate = 0, s_avgPnL = 0\<rparr>"

definition setup_add :: "trade \<Rightarrow> setup_stats \<Rightarrow> setup_stats" where
  "setup_add t s =
     (let s1 = s\<lparr>s_totalTrades := s_totalTrades s + 1\<rparr>;
          s2 = s1\<lparr>s_totalPnL := s_totalPnL s1 + num (pnl t)\<rparr>
      in if num (pnl t) > 0 then s2\<lparr>s_winners := s_winners s2 + 1\<rparr>
         else if num (pnl t) < 0 then s2\<lparr>s_losers := s_losers s2 + 1\<rparr>
         else s2)"

text \<open>
  The object \<open>setupStats\<close> is an association list in insertion order: a new key goes to
  the end, an existing key is updated where it stands. (The table admits seven setup
  names, none of them a number or the name of a built-in property, so the keys of
  the object are kept in the order of their insertion.)
\<close>

definition setup_step :: "(string \<times> setup_stats) list \<Rightarrow> trade \<Rightarrow> (string \<times> setup_stats) list" where
  "setup_step setupStats t =
     (let setup = setup_key t;
          st1 = (if map_of setupStats setup = None
                 then AList.update setup setup_zero setupStats else setupStats)
      in AList.map_entry setup (setup_add t) st1)"

text \<open>
  The second pass. The divisions are by \<open>totalTrades\<close>, which is at least 1 in every
  entry the first pass made (lemma \<open>setup_acc_totalTrades_pos\<close>).
\<close>

definition setup_finish :: "setup_stats \<Rightarrow> setup_stats" where
  "setup_finish s =
     (let s1 = s\<lparr>s_winRate := round_pct (of_nat (s_winners s) / of_nat (s_totalTrades s))\<rparr>;
          s2 = s1\<lparr>s_avgPnL := round2 (s_totalPnL s1 / of_nat (s_totalTrades s1))\<rparr>
      in s2\<lparr>s_totalPnL := round2 (s_totalPnL s2)\<rparr>)"

definition setup_acc :: "trade list \<Rightarrow> (string \<times> setup_stats) list" where
  "setup_acc trades = foldl setup_step [] trades"

text \<open>\<open>getSetupAnalysis(trades)\<close> for a list that is passed in (or was fetched).\<close>

definition getSetupAnalysis :: "trade list \<Rightarrow> (string \<times> setup_stats) list" where
  "getSetupAnalysis trades = map (\<lambda>(k, s). (k, setup_finish s)) (setup_acc trades)"

section \<open>Statistics: analysis by day of week\<close>

text \<open>
  What \<open>toLocaleDateString('en-US', {weekday: 'long'})\<close> can return: one of the seven
  names, or \<open>Invalid Date\<close> for a timestamp that does not parse. The conversion of a
  timestamp (parsing, local time zone) is the parameter \<open>weekday\<close> of the functions below.
\<close>

datatype dayname =
  Sunday | Monday | Tuesday | Wednesday | Thursday | Friday | Saturday | Invalid_Date

record day_acc =
  a_totalTrades :: nat
  a_totalPnL :: rat
  a_winners :: nat

record day_stats =
  d_totalTrades :: nat
  d_totalPnL :: rat
  d_winners :: nat
  d_winRate :: rat
  d_avgPnL :: rat

definition day_zero :: day_acc where
  "day_zero = \<lparr>a_totalTrades = 0, a_totalPnL = 0, a_winners = 0\<rparr>"

definition dayStats_init :: "(dayname \<times> day_acc) list" where
  "dayStats_init =
     [(Monday, day_zero), (Tuesday, day_zero), (Wednesday, day_zero),
      (Thursday, day_zero), (Friday, day_zero)]"

definition day_add :: "trade \<Rightarrow> day_acc \<Rightarrow> day_acc" where
  "day_add t s =
     (let s1 = s\<lparr>a_totalTrades := a_totalTrades s + 1\<rparr>;
          s2 = s1\<lparr>a_totalPnL := a_totalPnL s1 + num (pnl t)\<rparr>
      in if num (pnl t) > 0 then s2\<lparr>a_winners := a_winners s2 + 1\<rparr> else s2)"

definition day_step ::
  "(string \<Rightarrow> dayname) \<Rightarrow> (dayname \<times> day_acc) list \<Rightarrow> trade \<Rightarrow> (dayname \<times> day_acc) list" where
  "day_step weekday dayStats t =
     (let dayName = weekday (entry_time t)
      in if map_of dayStats dayName \<noteq> None
         then AList.map_entry dayName (day_add t) dayStats
         else dayStats)"

definition day_finish :: "day_acc \<Rightarrow> day_stats" where
  "day_finish s =
     \<lparr>d_totalTrades = a_totalTrades s,
      d_totalPnL = round2 (a_totalPnL s),
      d_winners = a_winners s,
      d_winRate = (if a_totalTrades s > 0
                   then round_pct (of_nat (a_winners s) / of_nat (a_totalTrades s)) else 0),
      d_avgPnL = (if a_totalTrades s > 0
                  then round2 (a_totalPnL s / of_nat (a_totalTrades s)) else 0)\<rparr>"

definition day_accs :: "(string \<Rightarrow> dayname) \<Rightarrow> trade list \<Rightarrow> (dayname \<times> day_acc) list" where
  "day_accs weekday trades = foldl (day_step weekday) dayStats_init trades"

text \<open>The argument is \<open>None\<close> when the caller passes no list: the result is then \<open>{}\<close>.\<close>

definition getDayOfWeekAnalysis ::
  "(string \<Rightarrow> dayname) \<Rightarrow> trade list option \<Rightarrow> (dayname \<times> day_stats) list" where
  "getDayOfWeekAnalysis weekday trades_arg =
     (case trades_arg of
        None \<Rightarrow> []
      | Some trades \<Rightarrow> map (\<lambda>(k, s). (k, day_finish s)) (day_accs weekday trades))"

section \<open>Statistics: \<open>getStats\<close>\<close>

text \<open>
  The result object. The early return for an empty list has no \<open>winners\<close>, \<open>losers\<close>
  and \<open>scratches\<close> properties: they are \<open>None\<close> there.
\<close>

record summary =
  totalTrades :: nat
  winners :: "nat option"
  losers :: "nat option"
  scratches :: "nat option"
  winRate :: rat
  avgWinner :: rat
  avgLoser :: rat
  profitFactor :: jsnum
  totalPnL :: rat
  bestTrade :: "trade_ref option"
  worstTrade :: "trade_ref option"
  setupAnalysis :: "(string \<times> setup_stats) list"
  dayOfWeekAnalysis :: "(dayname \<times> day_stats) list"

text \<open>
  \<open>getStats\<close> from the point where the query has answered: \<open>trades\<close> is the list of
  rows the query returned.
\<close>

definition getStats :: "(string \<Rightarrow> dayname) \<Rightarrow> trade list \<Rightarrow> summary" where
  "getStats weekday trades =
     (if length trades = 0 then
        \<lparr>totalTrades = 0, winners = None, losers = None, scratches = None,
         winRate = 0, avgWinner = 0, avgLoser = 0, profitFactor = Fin 0, totalPnL = 0,
         bestTrade = None, worstTrade = None, setupAnalysis = [], dayOfWeekAnalysis = []\<rparr>
      else
        \<lparr>totalTrades = length trades,
         winners = Some (length (winners_of trades)),
         losers = Some (length (losers_of trades)),
         scratches = Some (length (scratches_of trades)),
         winRate = round2 (raw_winRate trades),
         avgWinner = round2 (raw_avgWinner trades),
         avgLoser = round2 (raw_avgLoser trades),
         profitFactor = js_round2 (raw_profitFactor trades),
         totalPnL = round2 (raw_totalPnL trades),
         bestTrade = map_option mk_ref (bestTrade_of trades),
         worstTrade = map_option mk_ref (worstTrade_of trades),
         setupAnalysis = getSetupAnalysis trades,
         dayOfWeekAnalysis = getDayOfWeekAnalysis weekday (Some trades)\<rparr>)"

section \<open>Statistics: streaks\<close>

record streak =
  streak_type :: string
  streak_count :: nat

record streaks =
  currentStreak :: streak
  bestWinStreak :: nat
  worstLossStreak :: nat

text \<open>
  The \<open>for\<close> loop of the current streak: the first argument is what is left of the
  list from index \<open>i\<close> on, \<open>streakType\<close> and \<open>currentStreak\<close> are the two variables the
  loop updates, and the last branch is the \<open>break\<close>.
\<close>

fun streak_loop :: "trade list \<Rightarrow> nat \<Rightarrow> string option \<Rightarrow> streak \<Rightarrow> streak" where
  "streak_loop [] i streakType cur = cur"
| "streak_loop (trade # rest) i streakType cur =
     (if i = 0 then
        (let st = (if isWin trade then ''win'' else if isLoss trade then ''loss''
                   else ''scratch'')
         in streak_loop rest (i + 1) (Some st) \<lparr>streak_type = st, streak_count = 1\<rparr>)
      else if (isWin trade \<and> streakType = Some ''win'')
            \<or> (isLoss trade \<and> streakType = Some ''loss'')
            \<or> (\<not> isWin trade \<and> \<not> isLoss trade \<and> streakType = Some ''scratch'')
      then streak_loop rest (i + 1) streakType (cur\<lparr>streak_count := streak_count cur + 1\<rparr>)
      else cur)"

text \<open>The four counters of the second loop and its body.\<close>

record scan =
  sc_bestWinStreak :: nat
  sc_worstLossStreak :: nat
  sc_currentWinStreak :: nat
  sc_currentLossStreak :: nat

definition scan_init :: scan where
  "scan_init = \<lparr>sc_bestWinStreak = 0, sc_worstLossStreak = 0,
                sc_currentWinStreak = 0, sc_currentLossStreak = 0\<rparr>"

definition scan_step :: "scan \<Rightarrow> trade \<Rightarrow> scan" where
  "scan_step s t =
     (if num (pnl t) > 0 then
        (let s1 = s\<lparr>sc_currentWinStreak := sc_currentWinStreak s + 1\<rparr>;
             s2 = s1\<lparr>sc_currentLossStreak := 0\<rparr>
         in s2\<lparr>sc_bestWinStreak := max (sc_bestWinStreak s2) (sc_currentWinStreak s2)\<rparr>)
      else if num (pnl t) < 0 then
        (let s1 = s\<lparr>sc_currentLossStreak := sc_currentLossStreak s + 1\<rparr>;
             s2 = s1\<lparr>sc_currentWinStreak := 0\<rparr>
         in s2\<lparr>sc_worstLossStreak := max (sc_worstLossStreak s2) (sc_currentLossStreak s2)\<rparr>)
      else s\<lparr>sc_currentWinStreak := 0, sc_currentLossStreak := 0\<rparr>)"

text \<open>
  \<open>getStreaks\<close> from the point where the query has answered. \<open>trades.reverse()\<close>
  reverses the array in place, so the function returns, next to its result, the
  contents of the array \<open>trades\<close> when it ends.
\<close>

definition getStreaks :: "trade list \<Rightarrow> streaks \<times> trade list" where
  "getStreaks trades =
     (if length trades = 0 then
        (\<lparr>currentStreak = \<lparr>streak_type = ''none'', streak_count = 0\<rparr>,
          bestWinStreak = 0, worstLossStreak = 0\<rparr>, trades)
      else
        (let cur = streak_loop trades 0 None \<lparr>streak_type = ''none'', streak_count = 0\<rparr>;
             trades' = rev trades;
             s = foldl scan_step scan_init trades'
         in (\<lparr>currentStreak = cur, bestWinStreak = sc_bestWinStreak s,
              worstLossStreak = sc_worstLossStreak s\<rparr>, trades')))"

section \<open>Rendering\<close>

text \<open>
  Text is a list of bytes; the three non-ASCII symbols the renderers emit are written
  in UTF-8. How a finite number prints (\<open>String(x)\<close>, \<open>x.toFixed(2)\<close>) is a parameter;
  the non-finite values print as the language fixes them.
\<close>

definition sym_infinity :: string where
  "sym_infinity = [CHR 0xE2, CHR 0x88, CHR 0x9E]"

definition sym_chart :: string where
  "sym_chart = [CHR 0xF0, CHR 0x9F, CHR 0x93, CHR 0x8A]"

definition sym_rule :: string where
  "sym_rule = [CHR 0xE2, CHR 0x95, CHR 0x90]"

fun js_show :: "(rat \<Rightarrow> string) \<Rightarrow> jsnum \<Rightarrow> string" where
  "js_show sh (Fin x) = sh x"
| "js_show sh PosInf = ''Infinity''"
| "js_show sh NegInf = ''-Infinity''"
| "js_show sh NaN = ''NaN''"

definition show_count :: "(rat \<Rightarrow> string) \<Rightarrow> nat option \<Rightarrow> string" where
  "show_count sh c = (case c of None \<Rightarrow> ''undefined'' | Some n \<Rightarrow> sh (of_nat n))"

definition show_pnl :: "(rat \<Rightarrow> string) \<Rightarrow> rat option \<Rightarrow> string" where
  "show_pnl sh v = (case v of None \<Rightarrow> ''null'' | Some x \<Rightarrow> sh x)"

definition show_text :: "string option \<Rightarrow> string" where
  "show_text v = (case v of None \<Rightarrow> ''null'' | Some s \<Rightarrow> s)"

text \<open>The lines \<open>formatStats\<close> pushes, in order; the result joins them with newlines.\<close>

definition formatStats_lines :: "(rat \<Rightarrow> string) \<Rightarrow> summary \<Rightarrow> string list" where
  "formatStats_lines sh stats =
     [sym_chart @ '' PERFORMANCE STATS'',
      concat (replicate 40 sym_rule),
      ''Total Trades: '' @ sh (of_nat (totalTrades stats)),
      ''Winners: '' @ show_count sh (winners stats) @ '' | Losers: ''
        @ show_count sh (losers stats) @ '' | Scratches: '' @ show_count sh (scratches stats),
      ''Win Rate: '' @ sh (winRate stats) @ ''%'',
      ''Avg Winner: $'' @ sh (avgWinner stats) @ '' | Avg Loser: $'' @ sh (avgLoser stats),
      ''Profit Factor: '' @ js_show sh (profitFactor stats),
      ''Total P&L: $'' @ sh (totalPnL stats)]
     @ (case bestTrade stats of
          None \<Rightarrow> []
        | Some b \<Rightarrow> [''Best Trade: '' @ ref_ticker b @ '' +$'' @ show_pnl sh (ref_pnl b)
                      @ '' ('' @ show_text (ref_setup b) @ '')''])
     @ (case worstTrade stats of
          None \<Rightarrow> []
        | Some w \<Rightarrow> [''Worst Trade: '' @ ref_ticker w @ '' -$'' @ sh \<bar>num (ref_pnl w)\<bar>
                      @ '' ('' @ show_text (ref_setup w) @ '')''])"

fun join_lines :: "string list \<Rightarrow> string" where
  "join_lines [] = []"
| "join_lines [l] = l"
| "join_lines (l # ls) = l @ [CHR 0x0A] @ join_lines ls"

definition formatStats :: "(rat \<Rightarrow> string) \<Rightarrow> summary \<Rightarrow> string" where
  "formatStats sh stats = join_lines (formatStats_lines sh stats)"

text \<open>
  The profit-factor card of \<open>generatePerformance\<close>: the class it chooses
  (\<open>stats.profitFactor >= 1\<close>) and the text it shows.
\<close>

fun js_ge1 :: "jsnum \<Rightarrow> bool" where
  "js_ge1 (Fin x) = (x \<ge> 1)"
| "js_ge1 PosInf = True"
| "js_ge1 NegInf = False"
| "js_ge1 NaN = False"

definition perf_profitFactor_class :: "summary \<Rightarrow> string" where
  "perf_profitFactor_class stats =
     (if js_ge1 (profitFactor stats) then ''positive'' else ''negative'')"

definition perf_profitFactor_text :: "(rat \<Rightarrow> string) \<Rightarrow> summary \<Rightarrow> string" where
  "perf_profitFactor_text toFixed2 stats =
     (if profitFactor stats = PosInf then sym_infinity
      else js_show toFixed2 (profitFactor stats))"

section \<open>The record store: operations on the \<open>trades\<close> table\<close>

text \<open>
  The store as far as the trade operations see it: the rows of \<open>trades\<close> in rowid
  order, the last id the table handed out, and the ids present in the two tables the
  foreign keys of a trade point to. A statement the engine rejects (a CHECK or a
  foreign-key constraint) and the error \<open>closeTrade\<close> throws are values of \<open>error\<close>.
\<close>

record db =
  trade_rows :: "trade list"
  last_trade_id :: nat
  narrative_ids :: "int list"
  watchlist_ids :: "int list"

datatype error = Trade_not_found nat | Constraint_failed

text \<open>\<open>toUpperCase\<close> on the ASCII letters; other bytes are left as they are.\<close>

definition toUpperCase :: "string \<Rightarrow> string" where
  "toUpperCase s =
     map (\<lambda>c. if CHR ''a'' \<le> c \<and> c \<le> CHR ''z'' then char_of (of_char c - (32::nat)) else c) s"

text \<open>\<open>a || b\<close> where \<open>a\<close> is a string or absent, and where it is a number or absent.\<close>

definition or_text :: "string option \<Rightarrow> string option \<Rightarrow> string option" where
  "or_text a b = (case a of None \<Rightarrow> b | Some s \<Rightarrow> if s = [] then b else Some s)"

definition or_null :: "'a::zero option \<Rightarrow> 'a option" where
  "or_null a = (case a of None \<Rightarrow> None | Some x \<Rightarrow> if x = 0 then None else Some x)"

record open_options =
  o_setup :: "string option"
  o_narrative :: "int option"
  o_watchlist :: "int option"
  o_risk :: "rat option"
  o_target :: "rat option"
  o_notes :: "string option"
  o_paper :: bool

record close_options =
  c_notes :: "string option"
  c_lessons :: "string option"

text \<open>\<open>['shares'].includes(instrument) ? 1 : 100\<close>.\<close>

definition multiplier :: "string \<Rightarrow> rat" where
  "multiplier instr = (if instr = ''shares'' then 1 else 100)"

definition COMMISSION :: rat where
  "COMMISSION = 1"

text \<open>The constraints of the table that an inserted row must meet.\<close>

definition row_ok :: "db \<Rightarrow> trade \<Rightarrow> bool" where
  "row_ok d r =
     (direction r \<in> set [''long'', ''short'']
      \<and> instrument r \<in> set [''shares'', ''calls'', ''puts'', ''0dte-calls'', ''0dte-puts'', ''csp'']
      \<and> (case setup_type r of
            None \<Rightarrow> True
          | Some s \<Rightarrow> s \<in> set [''breakout'', ''fade'', ''momentum'', ''reversal'', ''csp'',
                               ''squeeze'', ''other''])
      \<and> (case narrative_id r of None \<Rightarrow> True | Some n \<Rightarrow> n \<in> set (narrative_ids d))
      \<and> (case watchlist_id r of None \<Rightarrow> True | Some w \<Rightarrow> w \<in> set (watchlist_ids d)))"

text \<open>
  \<open>openTrade\<close>; \<open>now\<close> is the clock reading the engine stores as \<open>entry_time\<close>. The
  result is the new id and the store with the row added.
\<close>

definition openTrade ::
  "string \<Rightarrow> string \<Rightarrow> string \<Rightarrow> string \<Rightarrow> rat \<Rightarrow> int \<Rightarrow> open_options \<Rightarrow> db
   \<Rightarrow> error + (nat \<times> db)" where
  "openTrade now tick dir instr entryPrice sz options d =
     (let costBasis = (entryPrice * of_int sz * multiplier instr) + COMMISSION;
          row = \<lparr>trade_id = last_trade_id d + 1,
                 ticker = toUpperCase tick,
                 direction = dir,
                 instrument = instr,
                 entry_price = entryPrice,
                 entry_time = now,
                 exit_price = None,
                 exit_time = None,
                 trade_size = sz,
                 cost_basis = costBasis,
                 proceeds = None,
                 pnl = None,
                 pnl_pct = None,
                 setup_type = or_text (o_setup options) (Some ''other''),
                 narrative_id = or_null (o_narrative options),
                 watchlist_id = or_null (o_watchlist options),
                 planned_risk = or_null (o_risk options),
                 planned_target = or_null (o_target options),
                 actual_rr = None,
                 trade_notes = or_text (o_notes options) None,
                 lessons = None,
                 status = ''open'',
                 is_paper = Some (if o_paper options then 1 else 0)\<rparr>
      in if row_ok d row
         then Inr (trade_id row, d\<lparr>trade_rows := trade_rows d @ [row], last_trade_id := trade_id row\<rparr>)
         else Inl Constraint_failed)"

text \<open>A number bound to a REAL column: the engine stores NaN as NULL.\<close>

definition sql_real :: "jsnum \<Rightarrow> jsnum option" where
  "sql_real x = (if x = NaN then None else Some x)"

text \<open>
  \<open>closeTrade\<close>. First what it computes from the row \<open>trade\<close> the SELECT returned,
  written into a row \<open>t\<close> as the SET clause of its UPDATE does.
\<close>

definition close_row :: "string \<Rightarrow> rat \<Rightarrow> close_options \<Rightarrow> trade \<Rightarrow> trade \<Rightarrow> trade" where
  "close_row now exitPrice options trade t =
     (let proceeds' = exitPrice * of_int (trade_size trade) * multiplier (instrument trade);
          pnl' = proceeds' - cost_basis trade;
          pnlPct = js_scale (js_div pnl' (cost_basis trade)) 100;
          actualRR = (case or_null (planned_risk trade) of
                        None \<Rightarrow> None
                      | Some risk \<Rightarrow> Some (pnl' / risk))
      in t\<lparr>exit_price := Some exitPrice,
            exit_time := Some now,
            proceeds := Some proceeds',
            pnl := Some pnl',
            pnl_pct := sql_real pnlPct,
            actual_rr := actualRR,
            status := ''closed'',
            trade_notes := or_text (c_notes options) (trade_notes trade),
            lessons := or_text (c_lessons options) None\<rparr>)"

text \<open>
  Then the function: the SELECT by id, the error when there is no such row, and the
  UPDATE of every row with that id.
\<close>

definition closeTrade :: "string \<Rightarrow> nat \<Rightarrow> rat \<Rightarrow> close_options \<Rightarrow> db \<Rightarrow> error + db" where
  "closeTrade now i exitPrice options d =
     (case find (\<lambda>t. trade_id t = i) (trade_rows d) of
        None \<Rightarrow> Inl (Trade_not_found i)
      | Some trade \<Rightarrow>
          Inr (d\<lparr>trade_rows :=
                 map (\<lambda>t. if trade_id t = i then close_row now exitPrice options trade t else t)
                     (trade_rows d)\<rparr>))"

definition updateTradeNotes :: "nat \<Rightarrow> string option \<Rightarrow> string option \<Rightarrow> db \<Rightarrow> error + db" where
  "updateTradeNotes i new_notes new_lessons d =
     Inr (d\<lparr>trade_rows :=
        map (\<lambda>t. if trade_id t = i then t\<lparr>trade_notes := new_notes, lessons := new_lessons\<rparr>
                  else t) (trade_rows d)\<rparr>)"

text \<open>
  The operations of the store that write the \<open>trades\<close> table; every other operation
  of the program writes another table or only reads.
\<close>

datatype trade_op =
  OpenTrade string string string string rat int open_options
| CloseTrade string nat rat close_options
| UpdateTradeNotes nat "string option" "string option"

fun exec :: "trade_op \<Rightarrow> db \<Rightarrow> error + db" where
  "exec (OpenTrade now tick dir instr entryPrice sz options) d =
     (case openTrade now tick dir instr entryPrice sz options d of
        Inl e \<Rightarrow> Inl e
      | Inr (i, d') \<Rightarrow> Inr d')"
| "exec (CloseTrade now i exitPrice options) d = closeTrade now i exitPrice options d"
| "exec (UpdateTradeNotes i new_notes new_lessons) d = updateTradeNotes i new_notes new_lessons d"

text \<open>The row with a given id, as \<open>SELECT * FROM trades WHERE id = ?\<close> returns it.\<close>

definition get_trade :: "db \<Rightarrow> nat \<Rightarrow> trade option" where
  "get_trade d i = find (\<lambda>t. trade_id t = i) (trade_rows d)"

text \<open>
  The query of \<open>getStats\<close> and \<open>getStreaks\<close>: closed trades that are not paper trades,
  narrowed by the period and ticker filters (\<open>extra\<close>), most recent entry first. SQL
  leaves the order of rows with equal \<open>entry_time\<close> open; the engine returns them in
  the order of their insertion, and so does the model: a stable sort of the reversed
  rows, reversed.
\<close>

definition closed_real :: "trade \<Rightarrow> bool" where
  "closed_real t = (status t = ''closed'' \<and> (is_paper t = Some 0 \<or> is_paper t = None))"

definition order_by_entry_time_desc :: "trade list \<Rightarrow> trade list" where
  "order_by_entry_time_desc rows = rev (sort_key entry_time (rev rows))"

definition query_closed :: "(trade \<Rightarrow> bool) \<Rightarrow> db \<Rightarrow> trade list" where
  "query_closed extra d =
     order_by_entry_time_desc (filter (\<lambda>t. closed_real t \<and> extra t) (trade_rows d))"

text \<open>The optional ticker of \<open>getStats\<close> (\<open>if (ticker)\<close>: absent and empty are falsy).\<close>

definition ticker_filter :: "string option \<Rightarrow> trade \<Rightarrow> bool" where
  "ticker_filter tick t =
     (case tick of
        None \<Rightarrow> True
      | Some s \<Rightarrow> if s = [] then True else ticker t = toUpperCase s)"

section \<open>The statistics on arrays of row objects\<close>

text \<open>
  Row objects and arrays are kept in an explicit heap: \<open>objs\<close> holds the row objects
  and \<open>arrs\<close> the arrays, an array being a list of references (indices into
  \<open>objs\<close>); a reference to an array is its index in \<open>arrs\<close>. Every operation takes
  the heap and returns it next to its result, so that what an operation writes is
  what differs between the two heaps.
\<close>

record heap =
  objs :: "trade list"
  arrs :: "nat list list"

text \<open>
  A new array. \<open>db.all\<close> creates one object for each row the query returns and a
  new array of them; the store itself is only read.
\<close>

definition alloc_arr :: "nat list \<Rightarrow> heap \<Rightarrow> nat \<times> heap" where
  "alloc_arr xs h = (length (arrs h), h\<lparr>arrs := arrs h @ [xs]\<rparr>)"

definition db_all :: "trade list \<Rightarrow> heap \<Rightarrow> nat \<times> heap" where
  "db_all rows h =
     alloc_arr [length (objs h) ..< length (objs h) + length rows] (h\<lparr>objs := objs h @ rows\<rparr>)"

text \<open>
  The array operations the statistics use. \<open>filter\<close> calls its callback on every
  element and returns a new array of the elements kept; \<open>reduce\<close> and \<open>forEach\<close> call
  their callback on every element in order (for \<open>forEach\<close> the state passed along is
  the variables the callback assigns); \<open>reverse\<close> reverses the array in place and
  returns the same array. A callback may write the heap, so it takes and returns it.
\<close>

definition arr_length :: "nat \<Rightarrow> heap \<Rightarrow> nat" where
  "arr_length a h = length (arrs h ! a)"

fun filter_loop :: "(nat \<Rightarrow> heap \<Rightarrow> bool \<times> heap) \<Rightarrow> nat list \<Rightarrow> heap \<Rightarrow> nat list \<times> heap" where
  "filter_loop cb [] h = ([], h)"
| "filter_loop cb (r # rs) h =
     (let (keep, h1) = cb r h;
          (kept, h2) = filter_loop cb rs h1
      in (if keep then r # kept else kept, h2))"

definition arr_filter :: "(nat \<Rightarrow> heap \<Rightarrow> bool \<times> heap) \<Rightarrow> nat \<Rightarrow> heap \<Rightarrow> nat \<times> heap" where
  "arr_filter cb a h = (let (kept, h1) = filter_loop cb (arrs h ! a) h in alloc_arr kept h1)"

fun fold_loop :: "('s \<Rightarrow> nat \<Rightarrow> heap \<Rightarrow> 's \<times> heap) \<Rightarrow> 's \<Rightarrow> nat list \<Rightarrow> heap \<Rightarrow> 's \<times> heap" where
  "fold_loop cb s [] h = (s, h)"
| "fold_loop cb s (r # rs) h = (let (s1, h1) = cb s r h in fold_loop cb s1 rs h1)"

definition arr_reduce :: "('s \<Rightarrow> nat \<Rightarrow> heap \<Rightarrow> 's \<times> heap) \<Rightarrow> 's \<Rightarrow> nat \<Rightarrow> heap \<Rightarrow> 's \<times> heap" where
  "arr_reduce cb init a h = fold_loop cb init (arrs h ! a) h"

definition arr_forEach :: "('s \<Rightarrow> nat \<Rightarrow> heap \<Rightarrow> 's \<times> heap) \<Rightarrow> 's \<Rightarrow> nat \<Rightarrow> heap \<Rightarrow> 's \<times> heap" where
  "arr_forEach cb vars a h = fold_loop cb vars (arrs h ! a) h"

definition arr_reverse :: "nat \<Rightarrow> heap \<Rightarrow> nat \<times> heap" where
  "arr_reverse a h = (a, h\<lparr>arrs := (arrs h)[a := rev (arrs h ! a)]\<rparr>)"

text \<open>The rows an array refers to, in the order of the array.\<close>

definition deref :: "heap \<Rightarrow> nat \<Rightarrow> trade list" where
  "deref h a = map (\<lambda>r. objs h ! r) (arrs h ! a)"

text \<open>
  The callbacks of the statistics: \<open>t => t.pnl > 0\<close>, \<open>t => t.pnl < 0\<close>,
  \<open>t => t.pnl === 0\<close>, \<open>(sum, t) => sum + t.pnl\<close>, the two callbacks that keep the best
  and the worst trade (a reference to it), and the bodies of the three \<open>forEach\<close>
  loops. Each reads the row through the heap.
\<close>

definition cb_win :: "nat \<Rightarrow> heap \<Rightarrow> bool \<times> heap" where
  "cb_win t h = (num (pnl (objs h ! t)) > 0, h)"

definition cb_loss :: "nat \<Rightarrow> heap \<Rightarrow> bool \<times> heap" where
  "cb_loss t h = (num (pnl (objs h ! t)) < 0, h)"

definition cb_scratch :: "nat \<Rightarrow> heap \<Rightarrow> bool \<times> heap" where
  "cb_scratch t h = (pnl (objs h ! t) = Some 0, h)"

definition cb_sum :: "rat \<Rightarrow> nat \<Rightarrow> heap \<Rightarrow> rat \<times> heap" where
  "cb_sum acc t h = (acc + num (pnl (objs h ! t)), h)"

definition cb_best :: "nat option \<Rightarrow> nat \<Rightarrow> heap \<Rightarrow> nat option \<times> heap" where
  "cb_best best current h =
     ((case best of
         None \<Rightarrow> Some current
       | Some b \<Rightarrow> if num (pnl (objs h ! current)) > num (pnl (objs h ! b))
                   then Some current else Some b), h)"

definition cb_worst :: "nat option \<Rightarrow> nat \<Rightarrow> heap \<Rightarrow> nat option \<times> heap" where
  "cb_worst worst current h =
     ((case worst of
         None \<Rightarrow> Some current
       | Some w \<Rightarrow> if num (pnl (objs h ! current)) < num (pnl (objs h ! w))
                   then Some current else Some w), h)"

definition cb_setup ::
  "(string \<times> setup_stats) list \<Rightarrow> nat \<Rightarrow> heap \<Rightarrow> (string \<times> setup_stats) list \<times> heap" where
  "cb_setup setupStats trade h = (setup_step setupStats (objs h ! trade), h)"

definition cb_day ::
  "(string \<Rightarrow> dayname) \<Rightarrow> (dayname \<times> day_acc) list \<Rightarrow> nat \<Rightarrow> heap
   \<Rightarrow> (dayname \<times> day_acc) list \<times> heap" where
  "cb_day weekday dayStats trade h = (day_step weekday dayStats (objs h ! trade), h)"

definition cb_scan :: "scan \<Rightarrow> nat \<Rightarrow> heap \<Rightarrow> scan \<times> heap" where
  "cb_scan s trade h = (scan_step s (objs h ! trade), h)"

text \<open>
  The operations of \<open>HorseyStats\<close> on the heap. \<open>getSetupAnalysis\<close> and
  \<open>getDayOfWeekAnalysis\<close> take a reference to the array of trades or nothing;
  \<open>getStats\<close> and \<open>getStreaks\<close> take no array: they run their query and work on the
  array \<open>db.all\<close> returns (\<open>getStats_rows_h\<close> is the body of \<open>getStats\<close> after its
  query). The period filter of \<open>getStats\<close> depends on the clock and the weekday of a
  timestamp on the time zone: they are the parameters \<open>dateFilter\<close> and \<open>weekday\<close>.
\<close>

definition getSetupAnalysis_h ::
  "nat option \<Rightarrow> db \<Rightarrow> heap \<Rightarrow> (string \<times> setup_stats) list \<times> heap" where
  "getSetupAnalysis_h trades_arg d h =
     (let (trades, h1) = (case trades_arg of
                            None \<Rightarrow> db_all (filter closed_real (trade_rows d)) h
                          | Some a \<Rightarrow> (a, h));
          (setupStats, h2) = arr_forEach cb_setup [] trades h1
      in (map (\<lambda>(k, s). (k, setup_finish s)) setupStats, h2))"

definition getDayOfWeekAnalysis_h ::
  "(string \<Rightarrow> dayname) \<Rightarrow> nat option \<Rightarrow> heap \<Rightarrow> (dayname \<times> day_stats) list \<times> heap" where
  "getDayOfWeekAnalysis_h weekday trades_arg h =
     (case trades_arg of
        None \<Rightarrow> ([], h)
      | Some trades \<Rightarrow>
          (let (dayStats, h1) = arr_forEach (cb_day weekday) dayStats_init trades h
           in (map (\<lambda>(k, s). (k, day_finish s)) dayStats, h1)))"

definition getStats_rows_h ::
  "(string \<Rightarrow> dayname) \<Rightarrow> nat \<Rightarrow> db \<Rightarrow> heap \<Rightarrow> summary \<times> heap" where
  "getStats_rows_h weekday trades d h0 =
     (if arr_length trades h0 = 0 then
        (\<lparr>totalTrades = 0, winners = None, losers = None, scratches = None,
          winRate = 0, avgWinner = 0, avgLoser = 0, profitFactor = Fin 0, totalPnL = 0,
          bestTrade = None, worstTrade = None, setupAnalysis = [],
          dayOfWeekAnalysis = []\<rparr>, h0)
      else
        (let (winners', h1) = arr_filter cb_win trades h0;
             (losers', h2) = arr_filter cb_loss trades h1;
             (scratches', h3) = arr_filter cb_scratch trades h2;
             (totalPnL', h4) = arr_reduce cb_sum 0 trades h3;
             winRate' = (of_nat (arr_length winners' h4) / of_nat (arr_length trades h4)) * 100;
             (totalWinnings', h5) = arr_reduce cb_sum 0 winners' h4;
             (lossSum, h6) = arr_reduce cb_sum 0 losers' h5;
             totalLosses' = \<bar>lossSum\<bar>;
             avgWinner' = (if arr_length winners' h6 > 0
                           then totalWinnings' / of_nat (arr_length winners' h6) else 0);
             avgLoser' = (if arr_length losers' h6 > 0
                          then totalLosses' / of_nat (arr_length losers' h6) else 0);
             profitFactor' = (if totalLosses' > 0 then Fin (totalWinnings' / totalLosses')
                              else if totalWinnings' > 0 then PosInf else Fin 0);
             (best, h7) = arr_reduce cb_best None trades h6;
             (worst, h8) = arr_reduce cb_worst None trades h7;
             (sa, h9) = getSetupAnalysis_h (Some trades) d h8;
             (da, h10) = getDayOfWeekAnalysis_h weekday (Some trades) h9
         in (\<lparr>totalTrades = arr_length trades h10,
              winners = Some (arr_length winners' h10),
              losers = Some (arr_length losers' h10),
              scratches = Some (arr_length scratches' h10),
              winRate = round2 winRate',
              avgWinner = round2 avgWinner',
              avgLoser = round2 avgLoser',
              profitFactor = js_round2 profitFactor',
              totalPnL = round2 totalPnL',
              bestTrade = map_option (\<lambda>b. mk_ref (objs h10 ! b)) best,
              worstTrade = map_option (\<lambda>w. mk_ref (objs h10 ! w)) worst,
              setupAnalysis = sa,
              dayOfWeekAnalysis = da\<rparr>, h10)))"

definition getStats_h ::
  "(string \<Rightarrow> dayname) \<Rightarrow> (trade \<Rightarrow> bool) \<Rightarrow> string option \<Rightarrow> db \<Rightarrow> heap \<Rightarrow> summary \<times> heap" where
  "getStats_h weekday dateFilter tick d h =
     (let (trades, h0) = db_all (query_closed (\<lambda>t. dateFilter t \<and> ticker_filter tick t) d) h
      in getStats_rows_h weekday trades d h0)"

definition getStreaks_h :: "db \<Rightarrow> heap \<Rightarrow> streaks \<times> heap" where
  "getStreaks_h d h =
     (let (trades, h0) = db_all (query_closed (\<lambda>t. True) d) h
      in if arr_length trades h0 = 0 then
           (\<lparr>currentStreak = \<lparr>streak_type = ''none'', streak_count = 0\<rparr>,
             bestWinStreak = 0, worstLossStreak = 0\<rparr>, h0)
         else
           (let cur = streak_loop (deref h0 trades) 0 None
                        \<lparr>streak_type = ''none'', streak_count = 0\<rparr>;
                (chron, h1) = arr_reverse trades h0;
                (s, h2) = arr_forEach cb_scan scan_init chron h1
            in (\<lparr>currentStreak = cur, bestWinStreak = sc_bestWinStreak s,
                 worstLossStreak = sc_worstLossStreak s\<rparr>, h2)))"

section \<open>Example rows\<close>

text \<open>A closed trade with the given id, profit and loss, setup and entry time.\<close>

definition closed_trade :: "nat \<Rightarrow> rat \<Rightarrow> string option \<Rightarrow> string \<Rightarrow> trade" where
  "closed_trade i p setup t =
     \<lparr>trade_id = i, ticker = ''SPY'', direction = ''long'', instrument = ''shares'',
      entry_price = 100, entry_time = t, exit_price = Some (100 + p),
      exit_time = Some t, trade_size = 1, cost_basis = 101, proceeds = Some (101 + p),
      pnl = Some p, pnl_pct = Some (Fin (p / 101 * 100)), setup_type = setup,
      narrative_id = None, watchlist_id = None, planned_risk = None,
      planned_target = None, actual_rr = None, trade_notes = None, lessons = None,
      status = ''closed'', is_paper = Some 0\<rparr>"

text \<open>A list of closed trades with the given profits and losses, ids from \<open>i\<close> on.\<close>

fun trades_with :: "nat \<Rightarrow> rat list \<Rightarrow> trade list" where
  "trades_with i [] = []"
| "trades_with i (p # ps) = closed_trade i p (Some ''other'') ''2024-01-01'' # trades_with (i + 1) ps"

text \<open>A weekday table for the dates the examples use.\<close>

definition example_weekday :: "string \<Rightarrow> dayname" where
  "example_weekday s =
     (if s = ''2024-01-01'' then Monday
      else if s = ''2024-01-02'' then Tuesday
      else if s = ''2024-01-06'' then Saturday
      else if s = ''2024-01-07'' then Sunday
      else Invalid_Date)"

text \<open>A week of trades: two on a Monday, one on a Tuesday, one on each day of the weekend.\<close>

definition example_week :: "trade list" where
  "example_week =
     [closed_trade 1 10 None ''2024-01-01'',
      closed_trade 2 (- 4) None ''2024-01-06'',
      closed_trade 3 6 None ''2024-01-01'',
      closed_trade 4 (- 3) None ''2024-01-02'',
      closed_trade 5 50 None ''2024-01-07'']"

text \<open>
  An empty store, calls without options, and two operations on it: opening ten shares
  at 100 and closing trade 1 at a given price.
\<close>

definition db_empty :: db where
  "db_empty = \<lparr>trade_rows = [], last_trade_id = 0, narrative_ids = [], watchlist_ids = []\<rparr>"

definition no_open_options :: open_options where
  "no_open_options = \<lparr>o_setup = None, o_narrative = None, o_watchlist = None, o_risk = None,
                       o_target = None, o_notes = None, o_paper = False\<rparr>"

definition no_close_options :: close_options where
  "no_close_options = \<lparr>c_notes = None, c_lessons = None\<rparr>"

definition example_open :: trade_op where
  "example_open = OpenTrade ''2024-01-01'' ''spy'' ''long'' ''shares'' 100 10 no_open_options"

definition example_close :: "rat \<Rightarrow> trade_op" where
  "example_close x = CloseTrade ''2024-01-02'' 1 x no_close_options"

text \<open>
  A heap holding four rows and one array of them, most recent first, and a store
  whose closed trades have the same profits and losses in that order.
\<close>

definition example_heap :: heap where
  "example_heap = \<lparr>objs = trades_with 1 [5, 3, - 2, 4], arrs = [[0, 1, 2, 3]]\<rparr>"

definition example_db :: db where
  "example_db =
     \<lparr>trade_rows = [closed_trade 1 4 None ''2024-01-01'', closed_trade 2 (- 2) None ''2024-01-02'',
                    closed_trade 3 3 None ''2024-01-06'', closed_trade 4 5 None ''2024-01-07''],
      last_trade_id = 4, narrative_ids = [], watchlist_ids = []\<rparr>"

section \<open>Reference definitions\<close>

text \<open>
  The definitions of this section are not translations of the source: they state, in
  the words of the specification, what the operations are compared with.
\<close>

text \<open>The profit-and-loss values of a list of trades, in order.\<close>

definition pnl_values :: "trade list \<Rightarrow> rat list" where
  "pnl_values ts = map (\<lambda>t. num (pnl t)) ts"


definition setup_sum :: "trade list \<Rightarrow> setup_stats" where
  "setup_sum g = foldl (\<lambda>s t. setup_add t s) setup_zero g"

text \<open>The five weekdays, the trades entered on one of them, and the bucket of a day
  computed from the trades of that day alone.\<close>

definition weekdays :: "dayname list" where
  "weekdays = [Monday, Tuesday, Wednesday, Thursday, Friday]"

definition day_group :: "(string \<Rightarrow> dayname) \<Rightarrow> dayname \<Rightarrow> trade list \<Rightarrow> trade list" where
  "day_group weekday d ts = filter (\<lambda>t. weekday (entry_time t) = d) ts"

definition day_sum :: "trade list \<Rightarrow> day_acc" where
  "day_sum g = foldl (\<lambda>s t. day_add t s) day_zero g"

definition day_bucket :: "trade list \<Rightarrow> day_stats" where
  "day_bucket g =
     \<lparr>d_totalTrades = length g,
      d_totalPnL = round2 (sum_list (pnl_values g)),
      d_winners = length (filter (\<lambda>p. p > 0) (pnl_values g)),
      d_winRate = (if g = [] then 0
                   else round_pct (of_nat (length (filter (\<lambda>p. p > 0) (pnl_values g)))
                                   / of_nat (length g))),
      d_avgPnL = (if g = [] then 0
                  else round2 (sum_list (pnl_values g) / of_nat (length g)))\<rparr>"




text \<open>
  The class of a trade, and the two running counters of the specification after a
  chronological list has been scanned: a win adds one to the win counter and zeroes
  the loss counter, a loss does the opposite, a scratch zeroes both.
\<close>

definition outcome_class :: "trade \<Rightarrow> string" where
  "outcome_class t =
     (if num (pnl t) > 0 then ''win'' else if num (pnl t) < 0 then ''loss'' else ''scratch'')"

definition win_counter :: "trade list \<Rightarrow> nat" where
  "win_counter xs =
     foldl (\<lambda>c t. if num (pnl t) > 0 then c + 1 else if num (pnl t) < 0 then 0 else 0) 0 xs"

definition loss_counter :: "trade list \<Rightarrow> nat" where
  "loss_counter xs =
     foldl (\<lambda>c t. if num (pnl t) > 0 then 0 else if num (pnl t) < 0 then c + 1 else 0) 0 xs"

text \<open>
  A sequence of operations on the store, stopping at the first error; the profit and
  loss stored for a trade after such a sequence; stores in which no row has an id
  above the last id handed out; and the operations that close a given trade.
\<close>

fun exec_all :: "trade_op list \<Rightarrow> db \<Rightarrow> error + db" where
  "exec_all [] d = Inr d"
| "exec_all (x # xs) d = (case exec x d of Inl e \<Rightarrow> Inl e | Inr d' \<Rightarrow> exec_all xs d')"

definition pnl_of_trade :: "nat \<Rightarrow> error + db \<Rightarrow> rat option" where
  "pnl_of_trade i r =
     (case r of
        Inl e \<Rightarrow> None
      | Inr d \<Rightarrow> (case get_trade d i of None \<Rightarrow> None | Some t \<Rightarrow> pnl t))"

definition ids_fresh :: "db \<Rightarrow> bool" where
  "ids_fresh d = list_all (\<lambda>t. trade_id t \<le> last_trade_id d) (trade_rows d)"

fun closes :: "nat \<Rightarrow> trade_op \<Rightarrow> bool" where
  "closes i (CloseTrade now j exitPrice options) = (j = i)"
| "closes i (OpenTrade now tick dir instr entryPrice sz options) = False"
| "closes i (UpdateTradeNotes j new_notes new_lessons) = False"

text \<open>
  A heap extends another if every object and every array of the first is in the
  second, unchanged and at the same place: the second has at most more of them.
\<close>

definition heap_extends :: "heap \<Rightarrow> heap \<Rightarrow> bool" where
  "heap_extends h h' =
     (take (length (objs h)) (objs h') = objs h \<and> take (length (arrs h)) (arrs h') = arrs h)"

section \<open>Properties of the summary\<close>

lemma foldl_add_sum: "foldl (\<lambda>s t. s + f t) a ts = a + sum_list (map f ts)"
  by (induction ts arbitrary: a) (simp_all add: add.assoc)

lemma sum_pnl_sum_list: "sum_pnl ts = (\<Sum>t\<leftarrow>ts. num (pnl t))"
  by (simp add: sum_pnl_def foldl_add_sum)

text \<open>
  C6. The summary of an empty list of trades is a value, not an error: the total is 0,
  win rate, average winner, average loser, profit factor and total profit and loss
  are 0, and best and worst trade are null. (The model of \<open>getStats\<close> has no error
  branch because the source has none: it is a total function of the rows fetched.)
\<close>

theorem getStats_empty_all_zero:
  "totalTrades (getStats weekday []) = 0
   \<and> winRate (getStats weekday []) = 0
   \<and> avgWinner (getStats weekday []) = 0
   \<and> avgLoser (getStats weekday []) = 0
   \<and> profitFactor (getStats weekday []) = Fin 0
   \<and> totalPnL (getStats weekday []) = 0
   \<and> bestTrade (getStats weekday []) = None
   \<and> worstTrade (getStats weekday []) = None"
  by (simp add: getStats_def)

lemma winners_length: "length (winners_of ts) = length (filter (\<lambda>p. p > 0) (pnl_values ts))"
  unfolding winners_of_def isWin_def by (induction ts) (simp_all add: pnl_values_def)

lemma losers_length: "length (losers_of ts) = length (filter (\<lambda>p. p < 0) (pnl_values ts))"
  unfolding losers_of_def isLoss_def by (induction ts) (simp_all add: pnl_values_def)

lemma scratches_length:
  "\<forall>t\<in>set ts. pnl t \<noteq> None \<Longrightarrow>
   length (scratches_of ts) = length (filter (\<lambda>p. p = 0) (pnl_values ts))"
  unfolding scratches_of_def isScratch_def
  by (induction ts) (auto simp: pnl_values_def num_def)

lemma winners_sum: "sum_pnl (winners_of ts) = sum_list (filter (\<lambda>p. p > 0) (pnl_values ts))"
  unfolding winners_of_def isWin_def sum_pnl_sum_list
  by (induction ts) (simp_all add: pnl_values_def)

lemma losers_sum: "sum_pnl (losers_of ts) = sum_list (filter (\<lambda>p. p < 0) (pnl_values ts))"
  unfolding losers_of_def isLoss_def sum_pnl_sum_list
  by (induction ts) (simp_all add: pnl_values_def)

lemma three_way_count:
  "length (filter (\<lambda>p. p > 0) ps) + length (filter (\<lambda>p. p < 0) ps)
   + length (filter (\<lambda>p. p = 0) ps) = length (ps :: rat list)"
  by (induction ps) auto

lemma partition_count:
  assumes "\<forall>t\<in>set ts. pnl t \<noteq> None"
  shows "length (winners_of ts) + length (losers_of ts) + length (scratches_of ts) = length ts"
  using assms three_way_count[of "pnl_values ts"]
  by (simp add: winners_length losers_length scratches_length pnl_values_def)

lemma raw_winRate_formula:
  "raw_winRate ts
   = of_nat (length (filter (\<lambda>p. p > 0) (pnl_values ts))) / of_nat (length ts) * 100"
  by (simp add: raw_winRate_def winners_length)

lemma raw_avgWinner_formula:
  "raw_avgWinner ts
   = (if filter (\<lambda>p. p > 0) (pnl_values ts) = [] then 0
      else sum_list (filter (\<lambda>p. p > 0) (pnl_values ts))
           / of_nat (length (filter (\<lambda>p. p > 0) (pnl_values ts))))"
  by (simp add: raw_avgWinner_def winners_length totalWinnings_def winners_sum)

lemma raw_avgLoser_formula:
  "raw_avgLoser ts
   = (if filter (\<lambda>p. p < 0) (pnl_values ts) = [] then 0
      else \<bar>sum_list (filter (\<lambda>p. p < 0) (pnl_values ts))\<bar>
           / of_nat (length (filter (\<lambda>p. p < 0) (pnl_values ts))))"
  by (simp add: raw_avgLoser_def losers_length totalLosses_def losers_sum)

lemma raw_avgLoser_nonneg: "raw_avgLoser ts \<ge> 0"
  by (simp add: raw_avgLoser_def totalLosses_def)

lemma raw_totalPnL_formula: "raw_totalPnL ts = sum_list (pnl_values ts)"
  by (simp add: raw_totalPnL_def sum_pnl_sum_list pnl_values_def)

lemma getStats_counts:
  assumes "ts \<noteq> []"
  shows "winners (getStats weekday ts) = Some (length (filter (\<lambda>p. p > 0) (pnl_values ts)))"
    and "losers (getStats weekday ts) = Some (length (filter (\<lambda>p. p < 0) (pnl_values ts)))"
    and "totalTrades (getStats weekday ts) = length ts"
  using assms by (simp_all add: getStats_def winners_length losers_length)

lemma getStats_scratches:
  assumes "ts \<noteq> []" and "\<forall>t\<in>set ts. pnl t \<noteq> None"
  shows "scratches (getStats weekday ts) = Some (length (filter (\<lambda>p. p = 0) (pnl_values ts)))"
  using assms by (simp add: getStats_def scratches_length)

lemma getStats_rounded:
  assumes "ts \<noteq> []"
  shows "winRate (getStats weekday ts) = round2 (raw_winRate ts)"
    and "avgWinner (getStats weekday ts) = round2 (raw_avgWinner ts)"
    and "avgLoser (getStats weekday ts) = round2 (raw_avgLoser ts)"
    and "totalPnL (getStats weekday ts) = round2 (raw_totalPnL ts)"
    and "profitFactor (getStats weekday ts) = js_round2 (raw_profitFactor ts)"
  using assms by (simp_all add: getStats_def)

lemma spec_example_summary:
  "totalPnL (getStats example_weekday (trades_with 1 [10, -5, 20, -5, 0])) = 20
   \<and> winners (getStats example_weekday (trades_with 1 [10, -5, 20, -5, 0])) = Some 2
   \<and> losers (getStats example_weekday (trades_with 1 [10, -5, 20, -5, 0])) = Some 2
   \<and> scratches (getStats example_weekday (trades_with 1 [10, -5, 20, -5, 0])) = Some 1
   \<and> winRate (getStats example_weekday (trades_with 1 [10, -5, 20, -5, 0])) = 40
   \<and> avgWinner (getStats example_weekday (trades_with 1 [10, -5, 20, -5, 0])) = 15
   \<and> avgLoser (getStats example_weekday (trades_with 1 [10, -5, 20, -5, 0])) = 5
   \<and> profitFactor (getStats example_weekday (trades_with 1 [10, -5, 20, -5, 0])) = Fin 3"
  by code_simp

text \<open>
  C5. For a non-empty list of trades that all carry a numeric profit and loss: the
  summary counts winners (above 0), losers (below 0) and scratches (equal to 0), and
  the three counts add up to the number of trades; the win rate is the share of
  winners times 100; the average winner is the sum of the winners over their number
  (0 without winners); the average loser is the absolute value of the sum of the
  losers over their number (0 without losers), never negative; the total is the sum
  of all values. These are the values \<open>getStats\<close> computes; the fields of its result
  are these values after the final rounding. On the values 10, -5, 20, -5, 0 the
  result has total 20, 2 winners, 2 losers, 1 scratch, win rate 40, average winner
  15, average loser 5 and profit factor 3.
\<close>

theorem summary_partition_and_averages:
  assumes "ts \<noteq> []" and "\<forall>t\<in>set ts. pnl t \<noteq> None"
  shows "winners (getStats weekday ts) = Some (length (filter (\<lambda>p. p > 0) (pnl_values ts)))
    \<and> losers (getStats weekday ts) = Some (length (filter (\<lambda>p. p < 0) (pnl_values ts)))
    \<and> scratches (getStats weekday ts) = Some (length (filter (\<lambda>p. p = 0) (pnl_values ts)))
    \<and> length (winners_of ts) + length (losers_of ts) + length (scratches_of ts) = length ts
    \<and> raw_winRate ts
        = of_nat (length (filter (\<lambda>p. p > 0) (pnl_values ts))) / of_nat (length ts) * 100
    \<and> raw_avgWinner ts
        = (if filter (\<lambda>p. p > 0) (pnl_values ts) = [] then 0
           else sum_list (filter (\<lambda>p. p > 0) (pnl_values ts))
                / of_nat (length (filter (\<lambda>p. p > 0) (pnl_values ts))))
    \<and> raw_avgLoser ts
        = (if filter (\<lambda>p. p < 0) (pnl_values ts) = [] then 0
           else \<bar>sum_list (filter (\<lambda>p. p < 0) (pnl_values ts))\<bar>
                / of_nat (length (filter (\<lambda>p. p < 0) (pnl_values ts))))
    \<and> raw_avgLoser ts \<ge> 0
    \<and> raw_totalPnL ts = sum_list (pnl_values ts)
    \<and> winRate (getStats weekday ts) = round2 (raw_winRate ts)
    \<and> avgWinner (getStats weekday ts) = round2 (raw_avgWinner ts)
    \<and> avgLoser (getStats weekday ts) = round2 (raw_avgLoser ts)
    \<and> totalPnL (getStats weekday ts) = round2 (raw_totalPnL ts)
    \<and> totalPnL (getStats example_weekday (trades_with 1 [10, -5, 20, -5, 0])) = 20
    \<and> winners (getStats example_weekday (trades_with 1 [10, -5, 20, -5, 0])) = Some 2
    \<and> losers (getStats example_weekday (trades_with 1 [10, -5, 20, -5, 0])) = Some 2
    \<and> scratches (getStats example_weekday (trades_with 1 [10, -5, 20, -5, 0])) = Some 1
    \<and> winRate (getStats example_weekday (trades_with 1 [10, -5, 20, -5, 0])) = 40
    \<and> avgWinner (getStats example_weekday (trades_with 1 [10, -5, 20, -5, 0])) = 15
    \<and> avgLoser (getStats example_weekday (trades_with 1 [10, -5, 20, -5, 0])) = 5
    \<and> profitFactor (getStats example_weekday (trades_with 1 [10, -5, 20, -5, 0])) = Fin 3"
  using getStats_counts(1,2)[OF assms(1), of weekday] getStats_scratches[OF assms, of weekday]
    partition_count[OF assms(2)] raw_winRate_formula[of ts] raw_avgWinner_formula[of ts]
    raw_avgLoser_formula[of ts] raw_avgLoser_nonneg[of ts] raw_totalPnL_formula[of ts]
    getStats_rounded(1-4)[OF assms(1), of weekday] spec_example_summary
  by blast

theorem summary_partition_and_averages_witness:
  "raw_winRate (trades_with 1 [7, -2, -2]) = 100 / 3
   \<and> winRate (getStats example_weekday (trades_with 1 [7, -2, -2])) = 3333 / 100
   \<and> raw_avgLoser (trades_with 1 [7, -2, -2]) = 2
   \<and> raw_totalPnL (trades_with 1 [7, -2, -2]) = 3
   \<and> scratches (getStats example_weekday (trades_with 1 [7, -2, -2])) = Some 0"
proof -
  have ne: "trades_with 1 [7, -2, -2] \<noteq> []"
    by simp
  have numeric: "\<forall>t\<in>set (trades_with 1 [7, -2, -2]). pnl t \<noteq> None"
    by (simp add: closed_trade_def)
  have vals: "pnl_values (trades_with 1 [7, -2, -2]) = [7, -2, -2]"
    by (simp add: pnl_values_def closed_trade_def num_def)
  note inst = summary_partition_and_averages[OF ne numeric, of example_weekday, unfolded vals]
  from inst have rate: "raw_winRate (trades_with 1 [7, -2, -2]) = 100 / 3"
    by simp
  from inst have loser: "raw_avgLoser (trades_with 1 [7, -2, -2]) = 2"
    by simp
  from inst have total: "raw_totalPnL (trades_with 1 [7, -2, -2]) = 3"
    by simp
  from inst have scr: "scratches (getStats example_weekday (trades_with 1 [7, -2, -2])) = Some 0"
    by simp
  from inst have "winRate (getStats example_weekday (trades_with 1 [7, -2, -2]))
                  = round2 (raw_winRate (trades_with 1 [7, -2, -2]))"
    by blast
  moreover have "round2 (100 / 3) = 3333 / 100"
    by code_simp
  ultimately have out: "winRate (getStats example_weekday (trades_with 1 [7, -2, -2])) = 3333 / 100"
    unfolding rate by simp
  show ?thesis
    using rate loser total scr out by blast
qed

section \<open>The profit factor and how it is shown\<close>

lemma sum_pos_filter:
  "sum_list (filter (\<lambda>p. p > 0) (ps::rat list)) > 0 \<longleftrightarrow> filter (\<lambda>p. p > 0) ps \<noteq> []"
proof (induction ps)
  case Nil show ?case by simp
next
  case (Cons p ps)
  have nn: "sum_list (filter (\<lambda>p. p > 0) ps) \<ge> 0"
    by (rule sum_list_nonneg) auto
  show ?case using Cons nn by auto
qed

lemma sum_neg_filter:
  "sum_list (filter (\<lambda>p. p < 0) (ps::rat list)) < 0 \<longleftrightarrow> filter (\<lambda>p. p < 0) ps \<noteq> []"
proof (induction ps)
  case Nil show ?case by simp
next
  case (Cons p ps)
  have nn: "sum_list (filter (\<lambda>p. p < 0) ps) \<le> 0"
    by (rule sum_list_nonpos) auto
  show ?case using Cons nn by auto
qed

lemma totalLosses_pos: "totalLosses ts > 0 \<longleftrightarrow> filter (\<lambda>p. p < 0) (pnl_values ts) \<noteq> []"
  using sum_neg_filter[of "pnl_values ts"] by (auto simp: totalLosses_def losers_sum)

lemma totalWinnings_pos: "totalWinnings ts > 0 \<longleftrightarrow> filter (\<lambda>p. p > 0) (pnl_values ts) \<noteq> []"
  using sum_pos_filter[of "pnl_values ts"] by (simp add: totalWinnings_def winners_sum)

lemma raw_profitFactor_cases:
  "raw_profitFactor ts =
     (if filter (\<lambda>p. p < 0) (pnl_values ts) \<noteq> []
      then Fin (sum_list (filter (\<lambda>p. p > 0) (pnl_values ts))
                / \<bar>sum_list (filter (\<lambda>p. p < 0) (pnl_values ts))\<bar>)
      else if filter (\<lambda>p. p > 0) (pnl_values ts) \<noteq> [] then PosInf
      else Fin 0)"
  unfolding raw_profitFactor_def totalLosses_pos totalWinnings_pos
  by (simp add: totalLosses_def totalWinnings_def winners_sum losers_sum)

lemma dashboard_shows_infinity_symbol:
  assumes "profitFactor stats = PosInf"
  shows "perf_profitFactor_text toFixed2 stats = sym_infinity"
  using assms by (simp add: perf_profitFactor_text_def)

lemma formatStats_line6:
  "formatStats_lines sh stats ! 6 = ''Profit Factor: '' @ js_show sh (profitFactor stats)"
  by (simp add: formatStats_lines_def)

text \<open>
  C1. The profit factor of a list with winnings and no loss is the value \<open>Infinity\<close>,
  and the performance card of the dashboard shows it as the infinity symbol; but the
  text report of \<open>formatStats\<close> prints the number as it is, so its line reads
  \<open>Profit Factor: Infinity\<close>. Evaluated on a single trade that won 10.
\<close>

theorem formatStats_prints_Infinity:
  "profitFactor (getStats example_weekday (trades_with 1 [10])) = PosInf
   \<and> perf_profitFactor_text toFixed2 (getStats example_weekday (trades_with 1 [10])) = sym_infinity
   \<and> formatStats_lines sh (getStats example_weekday (trades_with 1 [10])) ! 6
       = ''Profit Factor: Infinity''
   \<and> formatStats_lines sh (getStats example_weekday (trades_with 1 [10])) ! 6
       \<noteq> ''Profit Factor: '' @ sym_infinity"
proof -
  have vals: "pnl_values (trades_with 1 [10]) = [10]"
    by (simp add: pnl_values_def closed_trade_def num_def)
  have raw: "raw_profitFactor (trades_with 1 [10]) = PosInf"
    unfolding raw_profitFactor_cases vals by simp
  have pf: "profitFactor (getStats example_weekday (trades_with 1 [10])) = PosInf"
    using getStats_rounded(5)[of "trades_with 1 [10]" example_weekday] raw
    by simp
  have card: "perf_profitFactor_text toFixed2 (getStats example_weekday (trades_with 1 [10]))
              = sym_infinity"
    by (rule dashboard_shows_infinity_symbol[OF pf])
  have line: "formatStats_lines sh (getStats example_weekday (trades_with 1 [10])) ! 6
              = ''Profit Factor: Infinity''"
    unfolding formatStats_line6 pf by simp
  have differ: "''Profit Factor: Infinity'' \<noteq> ''Profit Factor: '' @ sym_infinity"
    by (simp add: sym_infinity_def)
  show ?thesis
    using pf card line differ by simp
qed

section \<open>Properties of the analysis by setup\<close>

lemma map_fst_map_entry: "map fst (AList.map_entry k f xs) = map fst xs"
  by (induction xs) auto

lemma setup_acc_snoc: "setup_acc (ts @ [t]) = setup_step (setup_acc ts) t"
  by (simp add: setup_acc_def)

lemma setup_acc_lookup:
  "map_of (setup_acc ts) k =
     (if filter (\<lambda>t. setup_key t = k) ts = [] then None
      else Some (setup_sum (filter (\<lambda>t. setup_key t = k) ts)))"
proof (induction ts rule: rev_induct)
  case Nil
  show ?case by (simp add: setup_acc_def)
next
  case (snoc t ts)
  show ?case
  proof (cases "setup_key t = k")
    case True
    then show ?thesis
      using snoc
      by (auto simp: setup_acc_snoc setup_step_def Let_def map_of_map_entry update_conv'
          setup_sum_def)
  next
    case False
    then show ?thesis
      using snoc
      by (auto simp: setup_acc_snoc setup_step_def Let_def map_of_map_entry update_conv')
  qed
qed

lemma setup_acc_distinct: "distinct (map fst (setup_acc ts))"
proof (induction ts rule: rev_induct)
  case Nil
  show ?case by (simp add: setup_acc_def)
next
  case (snoc t ts)
  then show ?case
    by (simp add: setup_acc_snoc setup_step_def Let_def distinct_map_entry distinct_update)
qed

lemma setup_add_fields:
  "s_totalTrades (setup_add t s) = s_totalTrades s + 1"
  "s_totalPnL (setup_add t s) = s_totalPnL s + num (pnl t)"
  "s_winners (setup_add t s) = s_winners s + (if num (pnl t) > 0 then 1 else 0)"
  "s_losers (setup_add t s) = s_losers s + (if num (pnl t) < 0 then 1 else 0)"
  by (simp_all add: setup_add_def Let_def)

lemma setup_fold_fields:
  "s_totalTrades (foldl (\<lambda>s t. setup_add t s) s0 g) = s_totalTrades s0 + length g
   \<and> s_totalPnL (foldl (\<lambda>s t. setup_add t s) s0 g) = s_totalPnL s0 + sum_list (pnl_values g)
   \<and> s_winners (foldl (\<lambda>s t. setup_add t s) s0 g)
       = s_winners s0 + length (filter (\<lambda>p. p > 0) (pnl_values g))
   \<and> s_losers (foldl (\<lambda>s t. setup_add t s) s0 g)
       = s_losers s0 + length (filter (\<lambda>p. p < 0) (pnl_values g))"
proof (induction g arbitrary: s0)
  case Nil
  show ?case by (simp add: pnl_values_def)
next
  case (Cons t g)
  show ?case
    using Cons.IH[of "setup_add t s0"]
    by (simp add: setup_add_fields pnl_values_def)
qed

lemma setup_sum_fields:
  "s_totalTrades (setup_sum g) = length g"
  "s_totalPnL (setup_sum g) = sum_list (pnl_values g)"
  "s_winners (setup_sum g) = length (filter (\<lambda>p. p > 0) (pnl_values g))"
  "s_losers (setup_sum g) = length (filter (\<lambda>p. p < 0) (pnl_values g))"
  using setup_fold_fields[of setup_zero g]
  by (simp_all add: setup_sum_def setup_zero_def)

text \<open>Every entry of the first pass counts at least one trade.\<close>

lemma setup_acc_totalTrades_pos:
  assumes "(k, s) \<in> set (setup_acc ts)"
  shows "s_totalTrades s > 0"
proof -
  from assms have "map_of (setup_acc ts) k = Some s"
    using setup_acc_distinct by (simp add: map_of_eq_Some_iff)
  then show ?thesis
    by (auto simp: setup_acc_lookup setup_sum_fields split: if_splits)
qed


section \<open>Properties of the analysis by day of week\<close>

lemma day_accs_snoc: "day_accs wd (ts @ [t]) = day_step wd (day_accs wd ts) t"
  by (simp add: day_accs_def)

lemma day_accs_keys: "map fst (day_accs wd ts) = weekdays"
proof (induction ts rule: rev_induct)
  case Nil
  show ?case by (simp add: day_accs_def dayStats_init_def weekdays_def)
next
  case (snoc t ts)
  then show ?case
    by (simp add: day_accs_snoc day_step_def Let_def map_fst_map_entry)
qed

lemma day_accs_lookup:
  "map_of (day_accs wd ts) d =
     (if d \<in> set weekdays then Some (day_sum (day_group wd d ts)) else None)"
proof (induction ts rule: rev_induct)
  case Nil
  show ?case
    by (simp add: day_accs_def dayStats_init_def weekdays_def day_sum_def day_group_def)
next
  case (snoc t ts)
  show ?case
  proof (cases "wd (entry_time t) = d")
    case True
    then show ?thesis
      using snoc
      by (simp add: day_accs_snoc day_step_def Let_def map_of_map_entry day_sum_def
          day_group_def)
  next
    case False
    then show ?thesis
      using snoc
      by (simp add: day_accs_snoc day_step_def Let_def map_of_map_entry day_group_def)
  qed
qed

lemma day_add_fields:
  "a_totalTrades (day_add t s) = a_totalTrades s + 1"
  "a_totalPnL (day_add t s) = a_totalPnL s + num (pnl t)"
  "a_winners (day_add t s) = a_winners s + (if num (pnl t) > 0 then 1 else 0)"
  by (simp_all add: day_add_def Let_def)

lemma day_fold_fields:
  "a_totalTrades (foldl (\<lambda>s t. day_add t s) s0 g) = a_totalTrades s0 + length g
   \<and> a_totalPnL (foldl (\<lambda>s t. day_add t s) s0 g) = a_totalPnL s0 + sum_list (pnl_values g)
   \<and> a_winners (foldl (\<lambda>s t. day_add t s) s0 g)
       = a_winners s0 + length (filter (\<lambda>p. p > 0) (pnl_values g))"
proof (induction g arbitrary: s0)
  case Nil
  show ?case by (simp add: pnl_values_def)
next
  case (Cons t g)
  show ?case
    using Cons.IH[of "day_add t s0"]
    by (simp add: day_add_fields pnl_values_def)
qed

lemma day_sum_fields:
  "a_totalTrades (day_sum g) = length g"
  "a_totalPnL (day_sum g) = sum_list (pnl_values g)"
  "a_winners (day_sum g) = length (filter (\<lambda>p. p > 0) (pnl_values g))"
  using day_fold_fields[of day_zero g]
  by (simp_all add: day_sum_def day_zero_def)

lemma day_finish_sum: "day_finish (day_sum g) = day_bucket g"
  by (simp add: day_finish_def day_bucket_def day_sum_fields)

lemma day_analysis_keys:
  "map fst (getDayOfWeekAnalysis wd (Some ts)) = weekdays"
  using day_accs_keys[of wd ts]
  by (simp add: getDayOfWeekAnalysis_def case_prod_beta comp_def)

lemma map_of_map_snd:
  "map_of (map (\<lambda>(k, s). (k, f s)) al) k = map_option f (map_of al k)"
  by (induction al) auto

lemma day_analysis_lookup:
  "map_of (getDayOfWeekAnalysis wd (Some ts)) d =
     (if d \<in> set weekdays then Some (day_bucket (day_group wd d ts)) else None)"
  by (simp add: getDayOfWeekAnalysis_def map_of_map_snd day_accs_lookup day_finish_sum)

lemma day_step_dropped:
  assumes "wd (entry_time t) \<notin> set weekdays"
  shows "day_step wd (day_accs wd ts) t = day_accs wd ts"
  using assms by (simp add: day_step_def Let_def day_accs_lookup)

lemma day_accs_filter_weekend:
  "day_accs wd (filter (\<lambda>t. wd (entry_time t) \<noteq> Saturday \<and> wd (entry_time t) \<noteq> Sunday) ts)
   = day_accs wd ts"
proof (induction ts rule: rev_induct)
  case Nil
  show ?case by simp
next
  case (snoc t ts)
  show ?case
  proof (cases "wd (entry_time t) \<noteq> Saturday \<and> wd (entry_time t) \<noteq> Sunday")
    case True
    then show ?thesis
      using snoc by (simp add: day_accs_snoc day_step_def Let_def day_accs_lookup)
  next
    case False
    then have "wd (entry_time t) \<notin> set weekdays"
      by (auto simp: weekdays_def)
    then show ?thesis
      using snoc False day_step_dropped[of wd t ts] by (simp add: day_accs_snoc)
  qed
qed

text \<open>
  C9. The analysis by day of week has exactly the five buckets Monday to Friday, in
  that order. The bucket of each of these days is computed from the trades entered
  on that day alone: their number, the rounded sum of their profit and loss, the
  number of winners among them, the win rate and the average (both 0 for a day
  without trades). A trade entered on a Saturday or a Sunday is in no bucket: the
  analysis is the same as that of the list without the weekend trades. The function
  has no error branch.
\<close>

theorem weekday_buckets:
  "map fst (getDayOfWeekAnalysis weekday (Some ts))
     = [Monday, Tuesday, Wednesday, Thursday, Friday]
   \<and> (\<forall>d\<in>set weekdays.
        map_of (getDayOfWeekAnalysis weekday (Some ts)) d
          = Some (day_bucket (day_group weekday d ts)))
   \<and> getDayOfWeekAnalysis weekday (Some ts)
       = getDayOfWeekAnalysis weekday
           (Some (filter (\<lambda>t. weekday (entry_time t) \<noteq> Saturday
                              \<and> weekday (entry_time t) \<noteq> Sunday) ts))"
proof -
  have keys: "map fst (getDayOfWeekAnalysis weekday (Some ts))
              = [Monday, Tuesday, Wednesday, Thursday, Friday]"
    using day_analysis_keys[of weekday ts] by (simp add: weekdays_def)
  have buckets: "\<forall>d\<in>set weekdays.
        map_of (getDayOfWeekAnalysis weekday (Some ts)) d
          = Some (day_bucket (day_group weekday d ts))"
    by (simp add: day_analysis_lookup)
  have dropped: "getDayOfWeekAnalysis weekday (Some ts)
       = getDayOfWeekAnalysis weekday
           (Some (filter (\<lambda>t. weekday (entry_time t) \<noteq> Saturday
                              \<and> weekday (entry_time t) \<noteq> Sunday) ts))"
    by (simp add: getDayOfWeekAnalysis_def day_accs_filter_weekend)
  show ?thesis
    using keys buckets dropped by blast
qed

theorem weekday_buckets_witness:
  "map_of (getDayOfWeekAnalysis example_weekday (Some example_week)) Monday
     = Some \<lparr>d_totalTrades = 2, d_totalPnL = 16, d_winners = 2, d_winRate = 100, d_avgPnL = 8\<rparr>
   \<and> map_of (getDayOfWeekAnalysis example_weekday (Some example_week)) Tuesday
     = Some \<lparr>d_totalTrades = 1, d_totalPnL = - 3, d_winners = 0, d_winRate = 0, d_avgPnL = - 3\<rparr>"
proof -
  have mon: "Monday \<in> set weekdays" and tue: "Tuesday \<in> set weekdays"
    by (simp_all add: weekdays_def)
  have bm: "day_bucket (day_group example_weekday Monday example_week)
            = \<lparr>d_totalTrades = 2, d_totalPnL = 16, d_winners = 2, d_winRate = 100, d_avgPnL = 8\<rparr>"
    by code_simp
  have bt: "day_bucket (day_group example_weekday Tuesday example_week)
            = \<lparr>d_totalTrades = 1, d_totalPnL = - 3, d_winners = 0, d_winRate = 0, d_avgPnL = - 3\<rparr>"
    by code_simp
  from weekday_buckets[of example_weekday example_week]
  have all: "\<forall>d\<in>set weekdays.
        map_of (getDayOfWeekAnalysis example_weekday (Some example_week)) d
          = Some (day_bucket (day_group example_weekday d example_week))"
    by blast
  show ?thesis
    using all mon tue bm bt by simp
qed

section \<open>Rounding\<close>










section \<open>Properties of the streaks\<close>

lemma streak_loop_step:
  assumes "i > 0" and "c \<in> {''win'', ''loss'', ''scratch''}"
  shows "streak_loop (t # rest) i (Some c) cur
         = (if outcome_class t = c
            then streak_loop rest (i + 1) (Some c) (cur\<lparr>streak_count := streak_count cur + 1\<rparr>)
            else cur)"
  using assms by (auto simp: isWin_def isLoss_def outcome_class_def)

lemma streak_loop_counts:
  assumes "i > 0" and "c \<in> {''win'', ''loss'', ''scratch''}"
  shows "streak_loop rest i (Some c) cur
         = cur\<lparr>streak_count := streak_count cur
                               + length (takeWhile (\<lambda>t. outcome_class t = c) rest)\<rparr>"
  using assms
proof (induction rest arbitrary: i cur)
  case Nil
  show ?case by simp
next
  case (Cons t rest)
  have i': "i + 1 > 0"
    by simp
  show ?case
    unfolding streak_loop_step[OF Cons.prems] Cons.IH[OF i' Cons.prems(2)]
    by simp
qed

lemma outcome_class_range: "outcome_class t \<in> {''win'', ''loss'', ''scratch''}"
  by (simp add: outcome_class_def)

lemma first_class: "(if isWin t then ''win'' else if isLoss t then ''loss'' else ''scratch'')
                    = outcome_class t"
  by (simp add: isWin_def isLoss_def outcome_class_def)

lemma streak_loop_from_start:
  "streak_loop (t # rest) 0 None cur
   = \<lparr>streak_type = outcome_class t,
      streak_count = length (takeWhile (\<lambda>u. outcome_class u = outcome_class t) (t # rest))\<rparr>"
  using streak_loop_counts[of "0 + 1" "outcome_class t" rest
          "\<lparr>streak_type = outcome_class t, streak_count = 1\<rparr>"] outcome_class_range[of t]
  by (simp add: first_class Let_def)

text \<open>
  C7. For a list of trades, most recent first, the current streak has the class of
  the most recent trade (win above 0, loss below 0, scratch otherwise) and counts the
  trades from the most recent one up to, not including, the first trade of another
  class; scratch is a class of its own. For no trades it is type none, count 0. On
  5, 3, -2, 4 it is a win streak of 2.
\<close>

theorem currentStreak_is_leading_run:
  "currentStreak (fst (getStreaks ts))
     = (if ts = [] then \<lparr>streak_type = ''none'', streak_count = 0\<rparr>
        else \<lparr>streak_type = outcome_class (hd ts),
              streak_count = length (takeWhile (\<lambda>t. outcome_class t = outcome_class (hd ts)) ts)\<rparr>)
   \<and> currentStreak (fst (getStreaks (trades_with 1 [5, 3, - 2, 4])))
     = \<lparr>streak_type = ''win'', streak_count = 2\<rparr>"
proof -
  have general: "currentStreak (fst (getStreaks ts))
     = (if ts = [] then \<lparr>streak_type = ''none'', streak_count = 0\<rparr>
        else \<lparr>streak_type = outcome_class (hd ts),
              streak_count = length (takeWhile (\<lambda>t. outcome_class t = outcome_class (hd ts)) ts)\<rparr>)"
  proof (cases ts)
    case Nil
    then show ?thesis by (simp add: getStreaks_def)
  next
    case (Cons t rest)
    then show ?thesis
      using streak_loop_from_start[of t rest]
      by (simp add: getStreaks_def Let_def)
  qed
  have example: "currentStreak (fst (getStreaks (trades_with 1 [5, 3, - 2, 4])))
     = \<lparr>streak_type = ''win'', streak_count = 2\<rparr>"
    by code_simp
  show ?thesis
    using general example by blast
qed

theorem currentStreak_is_leading_run_witness:
  "currentStreak (fst (getStreaks (trades_with 1 [0, 0, 7])))
     = \<lparr>streak_type = ''scratch'', streak_count = 2\<rparr>"
proof -
  have ne: "trades_with 1 [0, 0, 7] \<noteq> []"
    by simp
  have cls: "outcome_class (hd (trades_with 1 [0, 0, 7])) = ''scratch''"
    by code_simp
  have run: "length (takeWhile (\<lambda>t. outcome_class t = ''scratch'') (trades_with 1 [0, 0, 7])) = 2"
    by code_simp
  from currentStreak_is_leading_run[of "trades_with 1 [0, 0, 7]"]
  have "currentStreak (fst (getStreaks (trades_with 1 [0, 0, 7])))
     = (if trades_with 1 [0, 0, 7] = [] then \<lparr>streak_type = ''none'', streak_count = 0\<rparr>
        else \<lparr>streak_type = outcome_class (hd (trades_with 1 [0, 0, 7])),
              streak_count = length (takeWhile (\<lambda>t. outcome_class t
                 = outcome_class (hd (trades_with 1 [0, 0, 7]))) (trades_with 1 [0, 0, 7]))\<rparr>)"
    by blast
  then show ?thesis
    unfolding cls run using ne by simp
qed

lemma win_counter_snoc:
  "win_counter (xs @ [t]) = (if num (pnl t) > 0 then win_counter xs + 1 else 0)"
  by (simp add: win_counter_def)

lemma loss_counter_snoc:
  "loss_counter (xs @ [t]) = (if num (pnl t) < 0 then loss_counter xs + 1 else 0)"
  by (simp add: loss_counter_def)

text \<open>The counters are the numbers of wins and of losses at the end of the scanned list.\<close>

lemma win_counter_trailing: "win_counter xs = length (takeWhile isWin (rev xs))"
  by (induction xs rule: rev_induct) (simp_all add: win_counter_def isWin_def)

lemma loss_counter_trailing: "loss_counter xs = length (takeWhile isLoss (rev xs))"
  by (induction xs rule: rev_induct) (simp_all add: loss_counter_def isLoss_def)

lemma Max_prefixes_snoc:
  "Max (set (map f (prefixes (xs @ [t])))) = max (Max (set (map f (prefixes xs)))) (f (xs @ [t]))"
proof -
  have "set (map f (prefixes (xs @ [t]))) = insert (f (xs @ [t])) (set (map f (prefixes xs)))"
    by simp
  moreover have "set (map f (prefixes xs)) \<noteq> {}"
    by (cases xs) simp_all
  ultimately show ?thesis
    by (simp add: max.commute)
qed

lemma scan_invariant:
  "foldl scan_step scan_init xs
   = \<lparr>sc_bestWinStreak = Max (set (map win_counter (prefixes xs))),
      sc_worstLossStreak = Max (set (map loss_counter (prefixes xs))),
      sc_currentWinStreak = win_counter xs,
      sc_currentLossStreak = loss_counter xs\<rparr>"
proof (induction xs rule: rev_induct)
  case Nil
  show ?case by (simp add: scan_init_def win_counter_def loss_counter_def)
next
  case (snoc t xs)
  have step: "foldl scan_step scan_init (xs @ [t]) = scan_step (foldl scan_step scan_init xs) t"
    by simp
  show ?case
    unfolding step snoc.IH Max_prefixes_snoc
    by (simp add: scan_step_def Let_def win_counter_snoc loss_counter_snoc)
qed

text \<open>
  C8. The best win streak and the worst loss streak are the largest values the win
  counter and the loss counter take while the trades are scanned from the oldest to
  the newest (the list fetched is most recent first, so the scan runs over its
  reverse). On the chronological values 1, 1, -1, 0, 1, 1, 1 they are 3 and 1.
\<close>

theorem best_and_worst_streaks_are_counter_maxima:
  "bestWinStreak (fst (getStreaks ts)) = Max (set (map win_counter (prefixes (rev ts))))
   \<and> worstLossStreak (fst (getStreaks ts)) = Max (set (map loss_counter (prefixes (rev ts))))
   \<and> bestWinStreak (fst (getStreaks (rev (trades_with 1 [1, 1, - 1, 0, 1, 1, 1])))) = 3
   \<and> worstLossStreak (fst (getStreaks (rev (trades_with 1 [1, 1, - 1, 0, 1, 1, 1])))) = 1"
proof -
  have general: "bestWinStreak (fst (getStreaks ts)) = Max (set (map win_counter (prefixes (rev ts))))
   \<and> worstLossStreak (fst (getStreaks ts)) = Max (set (map loss_counter (prefixes (rev ts))))"
  proof (cases "ts = []")
    case True
    then show ?thesis
      by (simp add: getStreaks_def win_counter_def loss_counter_def)
  next
    case False
    then show ?thesis
      by (simp add: getStreaks_def Let_def scan_invariant)
  qed
  have example: "bestWinStreak (fst (getStreaks (rev (trades_with 1 [1, 1, - 1, 0, 1, 1, 1])))) = 3
   \<and> worstLossStreak (fst (getStreaks (rev (trades_with 1 [1, 1, - 1, 0, 1, 1, 1])))) = 1"
    by code_simp
  show ?thesis
    using general example by blast
qed

section \<open>Properties of the record store\<close>

lemma find_append_fresh:
  assumes "\<forall>t\<in>set rows. \<not> P t" and "P r"
  shows "find P (rows @ [r]) = Some r"
  using assms by (induction rows) simp_all

lemma find_append_old:
  assumes "find P rows = Some t"
  shows "find P (rows @ added) = Some t"
  using assms by (induction rows) (simp_all split: if_splits)

lemma find_map_same_key:
  assumes "\<And>t. trade_id (f t) = trade_id t"
  shows "find (\<lambda>t. trade_id t = i) (map (\<lambda>t. if trade_id t = i then f t else t) rows)
         = map_option f (find (\<lambda>t. trade_id t = i) rows)"
  using assms by (induction rows) simp_all

lemma find_map_other_key:
  assumes "j \<noteq> i" and "\<And>t. trade_id (f t) = trade_id t"
  shows "find (\<lambda>t. trade_id t = i) (map (\<lambda>t. if trade_id t = j then f t else t) rows)
         = find (\<lambda>t. trade_id t = i) rows"
  using assms by (induction rows) auto

lemma openTrade_result:
  assumes "openTrade now tick dir instr entryPrice sz options d = Inr (i, d1)"
  shows "i = last_trade_id d + 1"
    and "\<exists>row. trade_rows d1 = trade_rows d @ [row] \<and> trade_id row = i
           \<and> cost_basis row = entryPrice * of_int sz * multiplier instr + COMMISSION
           \<and> trade_size row = sz \<and> instrument row = instr \<and> entry_price row = entryPrice
           \<and> status row = ''open'' \<and> pnl row = None"
  using assms by (auto simp: openTrade_def Let_def split: if_splits)

lemma openTrade_get:
  assumes "ids_fresh d"
    and "openTrade now tick dir instr entryPrice sz options d = Inr (i, d1)"
  shows "\<exists>row. get_trade d1 i = Some row
           \<and> cost_basis row = entryPrice * of_int sz * multiplier instr + COMMISSION
           \<and> trade_size row = sz \<and> instrument row = instr \<and> entry_price row = entryPrice
           \<and> status row = ''open'' \<and> pnl row = None"
proof -
  from openTrade_result[OF assms(2)] obtain row where
    i: "i = last_trade_id d + 1" and rows: "trade_rows d1 = trade_rows d @ [row]"
    and id: "trade_id row = i"
    and rest: "cost_basis row = entryPrice * of_int sz * multiplier instr + COMMISSION"
      "trade_size row = sz" "instrument row = instr" "entry_price row = entryPrice"
      "status row = ''open''" "pnl row = None"
    by blast
  have "\<forall>t\<in>set (trade_rows d). \<not> trade_id t = i"
    using assms(1) i by (auto simp: ids_fresh_def list_all_iff)
  then have "get_trade d1 i = Some row"
    unfolding get_trade_def rows using id by (intro find_append_fresh) simp_all
  then show ?thesis
    using rest by blast
qed

lemma close_row_fields:
  "trade_id (close_row now x options trade t) = trade_id t"
  "cost_basis (close_row now x options trade t) = cost_basis t"
  "exit_price (close_row now x options trade t) = Some x"
  "status (close_row now x options trade t) = ''closed''"
  "proceeds (close_row now x options trade t)
     = Some (x * of_int (trade_size trade) * multiplier (instrument trade))"
  "pnl (close_row now x options trade t)
     = Some (x * of_int (trade_size trade) * multiplier (instrument trade) - cost_basis trade)"
  by (simp_all add: close_row_def Let_def)

lemma closeTrade_get:
  assumes "get_trade d i = Some t"
  shows "\<exists>d2 t'. closeTrade now i exitPrice options d = Inr d2
           \<and> get_trade d2 i = Some t'
           \<and> exit_price t' = Some exitPrice
           \<and> proceeds t' = Some (exitPrice * of_int (trade_size t) * multiplier (instrument t))
           \<and> pnl t' = Some (exitPrice * of_int (trade_size t) * multiplier (instrument t)
                             - cost_basis t)
           \<and> cost_basis t' = cost_basis t
           \<and> status t' = ''closed''"
proof -
  let ?f = "close_row now exitPrice options t"
  let ?d2 = "d\<lparr>trade_rows := map (\<lambda>u. if trade_id u = i then ?f u else u) (trade_rows d)\<rparr>"
  have found: "find (\<lambda>t. trade_id t = i) (trade_rows d) = Some t"
    using assms by (simp add: get_trade_def)
  have run: "closeTrade now i exitPrice options d = Inr ?d2"
    by (simp add: closeTrade_def found)
  have "get_trade ?d2 i = map_option ?f (find (\<lambda>t. trade_id t = i) (trade_rows d))"
    unfolding get_trade_def by (simp add: find_map_same_key close_row_fields)
  then have got: "get_trade ?d2 i = Some (?f t)"
    by (simp add: found)
  show ?thesis
    using run got by (intro exI[of _ ?d2] exI[of _ "?f t"]) (simp add: close_row_fields)
qed

lemma closeTrade_rows:
  assumes "closeTrade now j x options d = Inr d'"
  shows "\<exists>trade. trade_rows d'
           = map (\<lambda>u. if trade_id u = j then close_row now x options trade u else u) (trade_rows d)"
  using assms by (auto simp: closeTrade_def split: option.splits)

lemma ids_fresh_empty: "ids_fresh db_empty"
  by (simp add: ids_fresh_def db_empty_def)

lemma exec_keeps_ids_fresh:
  assumes "ids_fresh d" and "exec op d = Inr d'"
  shows "ids_fresh d'"
proof (cases op)
  case (OpenTrade now tick dir instr entryPrice sz options)
  then show ?thesis
    using assms
    by (auto simp: openTrade_def Let_def ids_fresh_def list_all_iff le_SucI split: if_splits)
next
  case (CloseTrade now i exitPrice options)
  then show ?thesis
    using assms
    by (auto simp: closeTrade_def close_row_fields ids_fresh_def list_all_iff
        split: option.splits)
next
  case (UpdateTradeNotes i new_notes new_lessons)
  then show ?thesis
    using assms
    by (auto simp: updateTradeNotes_def ids_fresh_def list_all_iff)
qed

text \<open>
  C10. A trade that \<open>openTrade\<close> stores has the cost basis entry price times size times
  multiplier plus 1, the multiplier being 1 for the instrument \<open>shares\<close> and 100 for any
  other. Closing it stores the proceeds exit price times size times multiplier, with
  nothing taken off, and the profit and loss (exit price - entry price) times size
  times multiplier minus 1: one commission of 1.00 per trade. (The ids of the store
  are assumed not to run ahead of its counter, which holds of the empty store and is
  kept by every operation.)
\<close>

theorem cost_basis_and_pnl_net_of_commission:
  assumes "ids_fresh d"
    and "openTrade now tick dir instr entryPrice sz options d = Inr (i, d1)"
  shows "\<exists>row. get_trade d1 i = Some row
           \<and> cost_basis row
               = entryPrice * of_int sz * (if instr = ''shares'' then 1 else 100) + 1
           \<and> (\<exists>d2 row'. closeTrade now' i exitPrice options' d1 = Inr d2
                 \<and> get_trade d2 i = Some row'
                 \<and> proceeds row'
                     = Some (exitPrice * of_int sz * (if instr = ''shares'' then 1 else 100))
                 \<and> pnl row'
                     = Some ((exitPrice - entryPrice) * of_int sz
                             * (if instr = ''shares'' then 1 else 100) - 1))"
proof -
  from openTrade_get[OF assms] obtain row where
    got: "get_trade d1 i = Some row"
    and cb: "cost_basis row = entryPrice * of_int sz * multiplier instr + COMMISSION"
    and sz: "trade_size row = sz" and ins: "instrument row = instr"
    by blast
  from closeTrade_get[OF got, of now' exitPrice options'] obtain d2 row' where
    run: "closeTrade now' i exitPrice options' d1 = Inr d2"
    and got': "get_trade d2 i = Some row'"
    and pr: "proceeds row' = Some (exitPrice * of_int (trade_size row) * multiplier (instrument row))"
    and pl: "pnl row' = Some (exitPrice * of_int (trade_size row) * multiplier (instrument row)
                              - cost_basis row)"
    by blast
  have cb': "cost_basis row
               = entryPrice * of_int sz * (if instr = ''shares'' then 1 else 100) + 1"
    using cb by (simp add: multiplier_def COMMISSION_def)
  have pr': "proceeds row'
               = Some (exitPrice * of_int sz * (if instr = ''shares'' then 1 else 100))"
    using pr by (simp add: sz ins multiplier_def)
  have pl': "pnl row' = Some ((exitPrice - entryPrice) * of_int sz
                             * (if instr = ''shares'' then 1 else 100) - 1)"
    using pl by (simp add: sz ins cb multiplier_def COMMISSION_def algebra_simps)
  show ?thesis
    using got cb' run got' pr' pl' by blast
qed

theorem cost_basis_and_pnl_net_of_commission_witness:
  "pnl_of_trade 1
     (exec_all [OpenTrade ''2024-01-01'' ''spy'' ''long'' ''calls'' (5 / 2) 3 no_open_options,
                CloseTrade ''2024-01-02'' 1 3 no_close_options] db_empty)
   = Some 149"
proof -
  have fresh: "ids_fresh db_empty"
    by (rule ids_fresh_empty)
  have "\<exists>d1. openTrade ''2024-01-01'' ''spy'' ''long'' ''calls'' (5 / 2) 3 no_open_options db_empty
             = Inr (1, d1)"
    by (simp add: openTrade_def Let_def row_ok_def no_open_options_def db_empty_def
        or_text_def or_null_def)
  then obtain d1 where
    run: "openTrade ''2024-01-01'' ''spy'' ''long'' ''calls'' (5 / 2) 3 no_open_options db_empty
          = Inr (1, d1)"
    by blast
  from cost_basis_and_pnl_net_of_commission[OF fresh run,
      where exitPrice = 3 and now' = "''2024-01-02''" and options' = no_close_options]
  obtain d2 row' where
    close: "closeTrade ''2024-01-02'' 1 3 no_close_options d1 = Inr d2"
    and got: "get_trade d2 1 = Some row'"
    and pl: "pnl row' = Some ((3 - 5 / 2) * of_int 3 * (if ''calls'' = ''shares'' then 1 else 100) - 1)"
    by blast
  have "pnl row' = Some 149"
    using pl by simp
  then show ?thesis
    using run close got by (simp add: pnl_of_trade_def)
qed


lemma exec_all_append:
  "exec_all (xs @ ys) d = (case exec_all xs d of Inl e \<Rightarrow> Inl e | Inr d' \<Rightarrow> exec_all ys d')"
  by (induction xs arbitrary: d) (simp_all split: sum.splits)

lemma other_ops_keep_row:
  assumes "get_trade d i = Some t" and "exec op d = Inr d'" and "\<not> closes i op"
  shows "\<exists>t'. get_trade d' i = Some t'
           \<and> t'\<lparr>trade_notes := trade_notes t, lessons := lessons t\<rparr> = t"
proof (cases op)
  case (OpenTrade now tick dir instr entryPrice sz options)
  with assms(2) obtain n where "openTrade now tick dir instr entryPrice sz options d = Inr (n, d')"
    by (auto split: sum.splits)
  from openTrade_result(2)[OF this] obtain row where "trade_rows d' = trade_rows d @ [row]"
    by blast
  then have "get_trade d' i = Some t"
    using assms(1) by (simp add: get_trade_def find_append_old)
  then show ?thesis
    by simp
next
  case (CloseTrade now j exitPrice options)
  with assms(3) have ji: "j \<noteq> i"
    by simp
  from assms(2) CloseTrade have "closeTrade now j exitPrice options d = Inr d'"
    by simp
  from closeTrade_rows[OF this] obtain trade where
    "trade_rows d'
       = map (\<lambda>u. if trade_id u = j then close_row now exitPrice options trade u else u)
             (trade_rows d)"
    by blast
  then have "get_trade d' i = Some t"
    using assms(1) ji by (simp add: get_trade_def find_map_other_key close_row_fields)
  then show ?thesis
    by simp
next
  case (UpdateTradeNotes j new_notes new_lessons)
  let ?f = "\<lambda>u::trade. u\<lparr>trade_notes := new_notes, lessons := new_lessons\<rparr>"
  from assms(2) UpdateTradeNotes have rows:
    "trade_rows d' = map (\<lambda>u. if trade_id u = j then ?f u else u) (trade_rows d)"
    by (auto simp: updateTradeNotes_def)
  show ?thesis
  proof (cases "j = i")
    case True
    have "get_trade d' i = map_option ?f (get_trade d i)"
      unfolding get_trade_def rows True by (simp add: find_map_same_key)
    then show ?thesis
      using assms(1) by simp
  next
    case False
    have "get_trade d' i = get_trade d i"
      unfolding get_trade_def rows using False by (simp add: find_map_other_key)
    then show ?thesis
      using assms(1) by simp
  qed
qed

text \<open>
  C3, as the claim states it, fails: a trade opened with cost basis 1001 and closed at
  110 has profit and loss 99; closing it again at 90 overwrites that with -101.
\<close>

theorem second_close_overwrites_pnl:
  "pnl_of_trade 1 (exec_all [example_open, example_close 110] db_empty) = Some 99
   \<and> pnl_of_trade 1 (exec_all [example_open, example_close 110, example_close 90] db_empty)
     = Some (- 101)"
  by code_simp

text \<open>
  C3, amended. Once a trade is closed, no operation other than a close of that same
  trade changes its row except in the notes and the lessons: opening a trade, closing
  another trade and updating notes leave status, exit price, proceeds, profit and loss
  and every other column as they are. A further close of the same trade succeeds and
  writes the row again: the status stays closed, the exit price is the new one, the
  proceeds are the new exit price times size times multiplier, and the profit and
  loss is the new proceeds minus the unchanged cost basis.
\<close>

theorem closed_trade_changed_only_by_another_close:
  assumes "get_trade d i = Some t" and "status t = ''closed''"
    and "exec op d = Inr d'"
  shows "(\<not> closes i op \<longrightarrow>
            (\<exists>t'. get_trade d' i = Some t'
                 \<and> t'\<lparr>trade_notes := trade_notes t, lessons := lessons t\<rparr> = t))
       \<and> (\<forall>now x options. op = CloseTrade now i x options \<longrightarrow>
            (\<exists>t'. get_trade d' i = Some t'
                 \<and> status t' = ''closed''
                 \<and> exit_price t' = Some x
                 \<and> proceeds t' = Some (x * of_int (trade_size t) * multiplier (instrument t))
                 \<and> pnl t' = Some (x * of_int (trade_size t) * multiplier (instrument t)
                                   - cost_basis t)
                 \<and> cost_basis t' = cost_basis t))"
proof (intro conjI impI allI)
  assume "\<not> closes i op"
  then show "\<exists>t'. get_trade d' i = Some t'
                 \<and> t'\<lparr>trade_notes := trade_notes t, lessons := lessons t\<rparr> = t"
    using other_ops_keep_row[OF assms(1) assms(3)] by blast
next
  fix now x options
  assume op: "op = CloseTrade now i x options"
  from closeTrade_get[OF assms(1), of now x options] obtain d2 t' where
    "closeTrade now i x options d = Inr d2" and "get_trade d2 i = Some t'"
    and "exit_price t' = Some x"
    and "proceeds t' = Some (x * of_int (trade_size t) * multiplier (instrument t))"
    and "pnl t' = Some (x * of_int (trade_size t) * multiplier (instrument t) - cost_basis t)"
    and "cost_basis t' = cost_basis t" and "status t' = ''closed''"
    by blast
  moreover from this(1) have "d2 = d'"
    using assms(3) op by simp
  ultimately show "\<exists>t'. get_trade d' i = Some t'
                 \<and> status t' = ''closed''
                 \<and> exit_price t' = Some x
                 \<and> proceeds t' = Some (x * of_int (trade_size t) * multiplier (instrument t))
                 \<and> pnl t' = Some (x * of_int (trade_size t) * multiplier (instrument t)
                                   - cost_basis t)
                 \<and> cost_basis t' = cost_basis t"
    by blast
qed

theorem closed_trade_changed_only_by_another_close_witness:
  "pnl_of_trade 1
     (exec_all [example_open, example_close 110, UpdateTradeNotes 1 (Some ''late entry'') None]
        db_empty) = Some 99"
proof -
  have "\<exists>d t. exec_all [example_open, example_close 110] db_empty = Inr d
          \<and> get_trade d 1 = Some t \<and> status t = ''closed'' \<and> pnl t = Some 99"
    by (simp add: example_open_def example_close_def db_empty_def no_open_options_def
        no_close_options_def openTrade_def closeTrade_def close_row_def get_trade_def Let_def
        row_ok_def
        or_text_def or_null_def multiplier_def COMMISSION_def)
  then obtain d t where
    run: "exec_all [example_open, example_close 110] db_empty = Inr d"
    and got: "get_trade d 1 = Some t" and closed: "status t = ''closed''"
    and pl: "pnl t = Some 99"
    by blast
  obtain d' where upd: "exec (UpdateTradeNotes 1 (Some ''late entry'') None) d = Inr d'"
    by (simp add: updateTradeNotes_def)
  have "\<not> closes 1 (UpdateTradeNotes 1 (Some ''late entry'') None)"
    by simp
  with closed_trade_changed_only_by_another_close[OF got closed upd]
  obtain t' where got': "get_trade d' 1 = Some t'"
    and same: "t'\<lparr>trade_notes := trade_notes t, lessons := lessons t\<rparr> = t"
    by blast
  have "pnl t' = pnl (t'\<lparr>trade_notes := trade_notes t, lessons := lessons t\<rparr>)"
    by simp
  then have pl': "pnl t' = Some 99"
    using same pl by simp
  have "exec_all ([example_open, example_close 110]
                  @ [UpdateTradeNotes 1 (Some ''late entry'') None]) db_empty = Inr d'"
    unfolding exec_all_append run using upd by simp
  then show ?thesis
    using got' pl' by (simp add: pnl_of_trade_def)
qed

section \<open>Effects of the statistics on rows and arrays\<close>

text \<open>
  Callbacks that only read leave the heap as it is; then \<open>filter\<close>, \<open>reduce\<close> and
  \<open>forEach\<close> compute the filter and the folds of the rows the array refers to.
\<close>

lemma filter_loop_read:
  "filter_loop (\<lambda>r h. (P (objs h ! r), h)) rs h = (filter (\<lambda>r. P (objs h ! r)) rs, h)"
  by (induction rs) simp_all

lemma fold_loop_read:
  "fold_loop (\<lambda>s r h. (g (objs h) s r, h)) s rs h = (foldl (g (objs h)) s rs, h)"
  by (induction rs arbitrary: s) simp_all

lemma arr_filter_win:
  "arr_filter cb_win a h
   = (length (arrs h), h\<lparr>arrs := arrs h @ [filter (\<lambda>r. isWin (objs h ! r)) (arrs h ! a)]\<rparr>)"
  using filter_loop_read[of "\<lambda>t. num (pnl t) > 0" "arrs h ! a" h]
  by (simp add: arr_filter_def cb_win_def[abs_def] alloc_arr_def isWin_def)

lemma arr_filter_loss:
  "arr_filter cb_loss a h
   = (length (arrs h), h\<lparr>arrs := arrs h @ [filter (\<lambda>r. isLoss (objs h ! r)) (arrs h ! a)]\<rparr>)"
  using filter_loop_read[of "\<lambda>t. num (pnl t) < 0" "arrs h ! a" h]
  by (simp add: arr_filter_def cb_loss_def[abs_def] alloc_arr_def isLoss_def)

lemma arr_filter_scratch:
  "arr_filter cb_scratch a h
   = (length (arrs h), h\<lparr>arrs := arrs h @ [filter (\<lambda>r. isScratch (objs h ! r)) (arrs h ! a)]\<rparr>)"
  using filter_loop_read[of "\<lambda>t. pnl t = Some 0" "arrs h ! a" h]
  by (simp add: arr_filter_def cb_scratch_def[abs_def] alloc_arr_def isScratch_def)

lemma arr_reduce_sum: "arr_reduce cb_sum 0 a h = (sum_pnl (deref h a), h)"
  using fold_loop_read[of "\<lambda>os sum t. sum + num (pnl (os ! t))" 0 "arrs h ! a" h]
  by (simp add: arr_reduce_def cb_sum_def[abs_def] sum_pnl_def deref_def foldl_map)

lemma arr_forEach_setup: "arr_forEach cb_setup [] a h = (setup_acc (deref h a), h)"
  using fold_loop_read[of "\<lambda>os st t. setup_step st (os ! t)" "[]" "arrs h ! a" h]
  by (simp add: arr_forEach_def cb_setup_def[abs_def] setup_acc_def deref_def foldl_map)

lemma arr_forEach_day:
  "arr_forEach (cb_day weekday) dayStats_init a h = (day_accs weekday (deref h a), h)"
  using fold_loop_read[of "\<lambda>os st t. day_step weekday st (os ! t)" dayStats_init "arrs h ! a" h]
  by (simp add: arr_forEach_def cb_day_def[abs_def] day_accs_def deref_def foldl_map)

lemma arr_forEach_scan:
  "arr_forEach cb_scan scan_init a h = (foldl scan_step scan_init (deref h a), h)"
  using fold_loop_read[of "\<lambda>os s t. scan_step s (os ! t)" scan_init "arrs h ! a" h]
  by (simp add: arr_forEach_def cb_scan_def[abs_def] deref_def foldl_map)

lemma pick_best_refs:
  "map_option (\<lambda>b. os ! b)
     (foldl (\<lambda>best current.
               case best of None \<Rightarrow> Some current
               | Some b \<Rightarrow> if num (pnl (os ! current)) > num (pnl (os ! b))
                           then Some current else Some b) acc rs)
   = foldl pick_best (map_option (\<lambda>b. os ! b) acc) (map (\<lambda>r. os ! r) rs)"
  by (induction rs arbitrary: acc) (simp_all add: pick_best_def split: option.splits)

lemma pick_worst_refs:
  "map_option (\<lambda>b. os ! b)
     (foldl (\<lambda>worst current.
               case worst of None \<Rightarrow> Some current
               | Some w \<Rightarrow> if num (pnl (os ! current)) < num (pnl (os ! w))
                           then Some current else Some w) acc rs)
   = foldl pick_worst (map_option (\<lambda>b. os ! b) acc) (map (\<lambda>r. os ! r) rs)"
  by (induction rs arbitrary: acc) (simp_all add: pick_worst_def split: option.splits)

lemma arr_reduce_best:
  "arr_reduce cb_best None a h = (b, h') \<Longrightarrow>
   h' = h \<and> map_option (\<lambda>b. objs h ! b) b = bestTrade_of (deref h a)"
  using fold_loop_read[of "\<lambda>os best current.
               case best of None \<Rightarrow> Some current
               | Some b \<Rightarrow> if num (pnl (os ! current)) > num (pnl (os ! b))
                           then Some current else Some b" None "arrs h ! a" h]
    pick_best_refs[of "objs h" None "arrs h ! a"]
  by (auto simp: arr_reduce_def cb_best_def[abs_def] bestTrade_of_def deref_def)

lemma arr_reduce_worst:
  "arr_reduce cb_worst None a h = (w, h') \<Longrightarrow>
   h' = h \<and> map_option (\<lambda>b. objs h ! b) w = worstTrade_of (deref h a)"
  using fold_loop_read[of "\<lambda>os worst current.
               case worst of None \<Rightarrow> Some current
               | Some w \<Rightarrow> if num (pnl (os ! current)) < num (pnl (os ! w))
                           then Some current else Some w" None "arrs h ! a" h]
    pick_worst_refs[of "objs h" None "arrs h ! a"]
  by (auto simp: arr_reduce_def cb_worst_def[abs_def] worstTrade_of_def deref_def)

lemma getSetupAnalysis_h_list:
  "getSetupAnalysis_h (Some a) d h = (getSetupAnalysis (deref h a), h)"
  by (simp add: getSetupAnalysis_h_def arr_forEach_setup getSetupAnalysis_def)

lemma getDayOfWeekAnalysis_h_list:
  "getDayOfWeekAnalysis_h weekday (Some a) h = (getDayOfWeekAnalysis weekday (Some (deref h a)), h)"
  by (simp add: getDayOfWeekAnalysis_h_def arr_forEach_day getDayOfWeekAnalysis_def)

lemma db_all_result:
  "db_all rows h
   = (length (arrs h),
      \<lparr>objs = objs h @ rows,
       arrs = arrs h @ [[length (objs h) ..< length (objs h) + length rows]]\<rparr>)"
  by (simp add: db_all_def alloc_arr_def)

lemma deref_fresh_rows:
  "map (\<lambda>r. (os @ rows) ! r) [length os ..< length os + length rows] = rows"
  by (rule nth_equalityI) (simp_all add: nth_append)


lemma arr_reduce_best_eq:
  "arr_reduce cb_best None a h = (b, h') \<Longrightarrow>
   h' = h \<and> map_option (\<lambda>b. mk_ref (objs h ! b)) b = map_option mk_ref (bestTrade_of (deref h a))"
proof -
  assume run: "arr_reduce cb_best None a h = (b, h')"
  have "map_option (\<lambda>b. mk_ref (objs h ! b)) b
        = map_option mk_ref (map_option (\<lambda>b. objs h ! b) b)"
    by (simp add: option.map_comp comp_def)
  then show ?thesis
    using arr_reduce_best[OF run] by simp
qed

lemma arr_reduce_worst_eq:
  "arr_reduce cb_worst None a h = (w, h') \<Longrightarrow>
   h' = h \<and> map_option (\<lambda>b. mk_ref (objs h ! b)) w = map_option mk_ref (worstTrade_of (deref h a))"
proof -
  assume run: "arr_reduce cb_worst None a h = (w, h')"
  have "map_option (\<lambda>b. mk_ref (objs h ! b)) w
        = map_option mk_ref (map_option (\<lambda>b. objs h ! b) w)"
    by (simp add: option.map_comp comp_def)
  then show ?thesis
    using arr_reduce_worst[OF run] by simp
qed

lemma deref_old:
  "a < length (arrs h) \<Longrightarrow> deref (h\<lparr>arrs := arrs h @ xs\<rparr>) a = deref h a"
  by (simp add: deref_def nth_append)

lemma arr_length_old:
  "a < length (arrs h) \<Longrightarrow> arr_length a (h\<lparr>arrs := arrs h @ xs\<rparr>) = arr_length a h"
  by (simp add: arr_length_def nth_append)

lemma deref_filter:
  "map (\<lambda>r. os ! r) (filter (\<lambda>r. P (os ! r)) rs) = filter P (map (\<lambda>r. os ! r) rs)"
  by (induction rs) simp_all

lemma length_filter_refs:
  "length (filter (\<lambda>r. P (os ! r)) rs) = length (filter P (map (\<lambda>r. os ! r) rs))"
  by (induction rs) simp_all

lemma getStats_rows_h_result:
  assumes "a < length (arrs h)"
  shows "getStats_rows_h weekday a d h
         = (getStats weekday (deref h a),
            if deref h a = [] then h
            else h\<lparr>arrs := arrs h @ [filter (\<lambda>r. isWin (objs h ! r)) (arrs h ! a),
                                      filter (\<lambda>r. isLoss (objs h ! r)) (arrs h ! a),
                                      filter (\<lambda>r. isScratch (objs h ! r)) (arrs h ! a)]\<rparr>)"
proof (cases "arrs h ! a = []")
  case True
  then show ?thesis
    by (simp add: getStats_rows_h_def arr_length_def deref_def getStats_def)
next
  case False
  define W where "W = filter (\<lambda>r. isWin (objs h ! r)) (arrs h ! a)"
  define L where "L = filter (\<lambda>r. isLoss (objs h ! r)) (arrs h ! a)"
  define S where "S = filter (\<lambda>r. isScratch (objs h ! r)) (arrs h ! a)"
  define h3 where "h3 = h\<lparr>arrs := arrs h @ [W, L, S]\<rparr>"
  have ne: "arr_length a h \<noteq> 0" "deref h a \<noteq> []"
    using False by (simp_all add: arr_length_def deref_def)
  have f1: "arr_filter cb_win a h = (length (arrs h), h\<lparr>arrs := arrs h @ [W]\<rparr>)"
    by (simp add: arr_filter_win W_def)
  have f2: "arr_filter cb_loss a (h\<lparr>arrs := arrs h @ [W]\<rparr>)
            = (Suc (length (arrs h)), h\<lparr>arrs := arrs h @ [W, L]\<rparr>)"
    using assms by (simp add: arr_filter_loss L_def nth_append)
  have f3: "arr_filter cb_scratch a (h\<lparr>arrs := arrs h @ [W, L]\<rparr>)
            = (Suc (Suc (length (arrs h))), h3)"
    using assms by (simp add: arr_filter_scratch S_def h3_def nth_append)
  have objs3: "objs h3 = objs h" and arrs3: "arrs h3 = arrs h @ [W, L, S]"
    by (simp_all add: h3_def)
  have da: "deref h3 a = deref h a"
    using assms by (simp add: h3_def deref_old)
  have dW: "deref h3 (length (arrs h)) = winners_of (deref h a)"
    by (simp add: deref_def arrs3 objs3 W_def winners_of_def deref_filter)
  have dL: "deref h3 (Suc (length (arrs h))) = losers_of (deref h a)"
    by (simp add: deref_def arrs3 objs3 L_def losers_of_def deref_filter nth_append)
  have la: "arr_length a h3 = length (deref h a)"
    using assms by (simp add: arr_length_def arrs3 nth_append deref_def)
  have lW: "arr_length (length (arrs h)) h3 = length (winners_of (deref h a))"
    by (simp add: arr_length_def arrs3 W_def winners_of_def deref_def length_filter_refs)
  have lL: "arr_length (Suc (length (arrs h))) h3 = length (losers_of (deref h a))"
    by (simp add: arr_length_def arrs3 L_def losers_of_def deref_def length_filter_refs nth_append)
  have lS: "arr_length (Suc (Suc (length (arrs h)))) h3 = length (scratches_of (deref h a))"
    by (simp add: arr_length_def arrs3 S_def scratches_of_def deref_def length_filter_refs nth_append)
  obtain b where b: "arr_reduce cb_best None a h3 = (b, h3)"
    and bv: "map_option (\<lambda>b. mk_ref (objs h3 ! b)) b = map_option mk_ref (bestTrade_of (deref h a))"
    using arr_reduce_best_eq[of a h3] da by (cases "arr_reduce cb_best None a h3") auto
  obtain w where w: "arr_reduce cb_worst None a h3 = (w, h3)"
    and wv: "map_option (\<lambda>b. mk_ref (objs h3 ! b)) w = map_option mk_ref (worstTrade_of (deref h a))"
    using arr_reduce_worst_eq[of a h3] da by (cases "arr_reduce cb_worst None a h3") auto
  have "getStats_rows_h weekday a d h = (getStats weekday (deref h a), h3)"
    using ne
    by (simp add: getStats_rows_h_def f1 f2 f3 arr_reduce_sum da dW dL la lW lL lS b bv w wv
        getSetupAnalysis_h_list getDayOfWeekAnalysis_h_list getStats_def
        raw_totalPnL_def raw_winRate_def raw_avgWinner_def raw_avgLoser_def raw_profitFactor_def
        totalWinnings_def totalLosses_def Let_def)
  then show ?thesis
    using ne by (simp add: h3_def W_def L_def S_def)
qed

lemma heap_extends_refl: "heap_extends h h"
  by (simp add: heap_extends_def)

lemma heap_extends_append:
  "heap_extends h \<lparr>objs = objs h @ os, arrs = arrs h @ as\<rparr>"
  by (simp add: heap_extends_def)

lemma heap_extends_deref:
  assumes "heap_extends h h'" and "a < length (arrs h)"
    and "\<forall>r\<in>set (arrs h ! a). r < length (objs h)"
  shows "arrs h' ! a = arrs h ! a" and "deref h' a = deref h a"
proof -
  from assms(1) have o: "take (length (objs h)) (objs h') = objs h"
    and a: "take (length (arrs h)) (arrs h') = arrs h"
    by (simp_all add: heap_extends_def)
  show arr: "arrs h' ! a = arrs h ! a"
    using assms(2) a by (metis nth_take)
  have "\<And>r. r < length (objs h) \<Longrightarrow> objs h' ! r = objs h ! r"
    using o by (metis nth_take)
  then show "deref h' a = deref h a"
    using assms(3) by (simp add: deref_def arr)
qed

lemma getStats_h_result:
  "fst (getStats_h weekday dateFilter tick d h)
     = getStats weekday (query_closed (\<lambda>t. dateFilter t \<and> ticker_filter tick t) d)"
  "heap_extends h (snd (getStats_h weekday dateFilter tick d h))"
proof -
  let ?rows = "query_closed (\<lambda>t. dateFilter t \<and> ticker_filter tick t) d"
  let ?h0 = "\<lparr>objs = objs h @ ?rows,
              arrs = arrs h @ [[length (objs h) ..< length (objs h) + length ?rows]]\<rparr>"
  have a: "length (arrs h) < length (arrs ?h0)"
    by simp
  have dr: "deref ?h0 (length (arrs h)) = ?rows"
    by (simp add: deref_def deref_fresh_rows)
  have run: "getStats_h weekday dateFilter tick d h = getStats_rows_h weekday (length (arrs h)) d ?h0"
    by (simp add: getStats_h_def db_all_result)
  show "fst (getStats_h weekday dateFilter tick d h) = getStats weekday ?rows"
    unfolding run getStats_rows_h_result[OF a] dr by simp
  show "heap_extends h (snd (getStats_h weekday dateFilter tick d h))"
    unfolding run getStats_rows_h_result[OF a] dr by (simp add: heap_extends_def)
qed

lemma getStreaks_h_result:
  "fst (getStreaks_h d h) = fst (getStreaks (query_closed (\<lambda>t. True) d))"
  "heap_extends h (snd (getStreaks_h d h))"
  "deref (snd (getStreaks_h d h)) (length (arrs h)) = snd (getStreaks (query_closed (\<lambda>t. True) d))"
proof -
  let ?rows = "query_closed (\<lambda>t. True) d"
  let ?refs = "[length (objs h) ..< length (objs h) + length ?rows]"
  let ?h0 = "\<lparr>objs = objs h @ ?rows, arrs = arrs h @ [?refs]\<rparr>"
  let ?h1 = "\<lparr>objs = objs h @ ?rows, arrs = arrs h @ [rev ?refs]\<rparr>"
  have dr: "deref ?h0 (length (arrs h)) = ?rows"
    by (simp add: deref_def deref_fresh_rows)
  have dr1: "deref ?h1 (length (arrs h)) = rev ?rows"
    using deref_fresh_rows[of "objs h" ?rows] by (simp add: deref_def rev_map[symmetric])
  have rv: "arr_reverse (length (arrs h)) ?h0 = (length (arrs h), ?h1)"
    by (simp add: arr_reverse_def)
  have run: "getStreaks_h d h
             = (if ?rows = [] then (fst (getStreaks ?rows), ?h0) else (fst (getStreaks ?rows), ?h1))"
    by (simp add: getStreaks_h_def db_all_result arr_length_def dr rv arr_forEach_scan dr1
        getStreaks_def Let_def)
  show "fst (getStreaks_h d h) = fst (getStreaks ?rows)"
    unfolding run by simp
  show "heap_extends h (snd (getStreaks_h d h))"
    unfolding run by (simp add: heap_extends_def)
  show "deref (snd (getStreaks_h d h)) (length (arrs h)) = snd (getStreaks ?rows)"
    unfolding run using dr dr1 by (auto simp: getStreaks_def Let_def deref_def)
qed

lemma getSetupAnalysis_h_fetch:
  "fst (getSetupAnalysis_h None d h) = getSetupAnalysis (filter closed_real (trade_rows d))"
  "heap_extends h (snd (getSetupAnalysis_h None d h))"
proof -
  let ?rows = "filter closed_real (trade_rows d)"
  let ?h0 = "\<lparr>objs = objs h @ ?rows,
              arrs = arrs h @ [[length (objs h) ..< length (objs h) + length ?rows]]\<rparr>"
  have dr: "deref ?h0 (length (arrs h)) = ?rows"
    by (simp add: deref_def deref_fresh_rows)
  have run: "getSetupAnalysis_h None d h = (getSetupAnalysis ?rows, ?h0)"
    by (simp add: getSetupAnalysis_h_def db_all_result arr_forEach_setup dr getSetupAnalysis_def)
  show "fst (getSetupAnalysis_h None d h) = getSetupAnalysis ?rows"
    unfolding run by simp
  show "heap_extends h (snd (getSetupAnalysis_h None d h))"
    unfolding run by (simp add: heap_extends_def)
qed

lemma example_query_order:
  "map (\<lambda>t. num (pnl t)) (query_closed (\<lambda>t. True) example_db) = [5, 3, - 2, 4]"
  by code_simp

text \<open>
  C4. No operation of the statistics writes to what it is given, and each gives the
  same result when called again. Setup and weekday analysis of an array of trades
  leave the whole heap as it was: the array, its order and the row objects. The
  operations that fetch their rows (setup analysis without argument, \<open>getStats\<close>,
  \<open>getStreaks\<close>) only add to the heap: every object and array that existed before
  the call is unchanged after it, and the store is only read. In each case a second
  call, made on the heap the first call has left, with the same store, clock and
  time zone, returns the same result as the first. \<open>getStreaks\<close> does reverse an array in place
  (\<open>getStreaks_h_result\<close>, third statement), but it is the array its own \<open>db.all\<close>
  has just created, which nothing else refers to.
\<close>

theorem statistics_leave_their_input_unchanged:
  assumes "a < length (arrs h)"
  shows "snd (getSetupAnalysis_h (Some a) d h) = h
    \<and> fst (getSetupAnalysis_h (Some a) d (snd (getSetupAnalysis_h (Some a) d h)))
        = fst (getSetupAnalysis_h (Some a) d h)
    \<and> snd (getDayOfWeekAnalysis_h weekday (Some a) h) = h
    \<and> fst (getDayOfWeekAnalysis_h weekday (Some a) (snd (getDayOfWeekAnalysis_h weekday (Some a) h)))
        = fst (getDayOfWeekAnalysis_h weekday (Some a) h)
    \<and> heap_extends h (snd (getSetupAnalysis_h None d h))
    \<and> fst (getSetupAnalysis_h None d (snd (getSetupAnalysis_h None d h)))
        = fst (getSetupAnalysis_h None d h)
    \<and> heap_extends h (snd (getStats_h weekday dateFilter tick d h))
    \<and> fst (getStats_h weekday dateFilter tick d (snd (getStats_h weekday dateFilter tick d h)))
        = fst (getStats_h weekday dateFilter tick d h)
    \<and> heap_extends h (snd (getStreaks_h d h))
    \<and> fst (getStreaks_h d (snd (getStreaks_h d h))) = fst (getStreaks_h d h)"
  by (simp add: getSetupAnalysis_h_list getDayOfWeekAnalysis_h_list getSetupAnalysis_h_fetch
      getStats_h_result getStreaks_h_result)

theorem statistics_leave_their_input_unchanged_witness:
  "snd (getSetupAnalysis_h (Some 0) example_db example_heap) = example_heap
   \<and> snd (getDayOfWeekAnalysis_h example_weekday (Some 0) example_heap) = example_heap
   \<and> heap_extends example_heap (snd (getStreaks_h example_db example_heap))
   \<and> currentStreak (fst (getStreaks_h example_db (snd (getStreaks_h example_db example_heap))))
       = \<lparr>streak_type = ''win'', streak_count = 2\<rparr>"
proof -
  have valid: "0 < length (arrs example_heap)"
    by (simp add: example_heap_def)
  have first: "currentStreak (fst (getStreaks_h example_db example_heap))
               = \<lparr>streak_type = ''win'', streak_count = 2\<rparr>"
    by code_simp
  note inst = statistics_leave_their_input_unchanged[OF valid,
      of example_db example_weekday "\<lambda>t. True" None]
  from inst have "fst (getStreaks_h example_db (snd (getStreaks_h example_db example_heap)))
                  = fst (getStreaks_h example_db example_heap)"
    by blast
  with first have second:
    "currentStreak (fst (getStreaks_h example_db (snd (getStreaks_h example_db example_heap))))
       = \<lparr>streak_type = ''win'', streak_count = 2\<rparr>"
    by simp
  show ?thesis
    using inst second by blast
qed

end
